theory Spec2Isabelle
  imports Main "HOL-Library.Sublist"
begin

text \<open>
  A model of \<open>src/container-runner.ts\<close>, the container runner of NanoClaw: the
  planning of the mounts (\<open>buildVolumeMounts\<close>, \<open>buildContainerArgs\<close>), the run of the
  container with its timeout, the capped capture of its two output channels and the
  extraction of its result (\<open>runContainerAgent\<close>), and the two snapshot writers
  (\<open>writeTasksSnapshot\<close>, \<open>writeGroupsSnapshot\<close>). What the runner takes from elsewhere
  is a parameter: the constants of \<open>config.ts\<close>, the validator of \<open>mount-security.ts\<close>,
  the JSON functions of the runtime, the environment of the process, the file system,
  and what the spawned process does.
\<close>

section \<open>JavaScript strings and arrays\<close>

text \<open>
  A JavaScript string is a sequence of code units; it is modelled as a \<open>string\<close>
  (a list of characters), and \<open>length\<close> is the \<open>.length\<close> of the source.
  Numbers that the source handles (sizes, exit codes, milliseconds) are integers.
\<close>

definition newline :: char where
  "newline = CHR 0x0A"

text \<open>The characters \<open>String.prototype.trim\<close> removes, among the code units below 256.\<close>

definition js_whitespace :: "char \<Rightarrow> bool" where
  "js_whitespace c = (c \<in> {CHR 0x09, CHR 0x0A, CHR 0x0B, CHR 0x0C, CHR 0x0D, CHR 0x20, CHR 0xA0})"

definition trim :: "string \<Rightarrow> string" where
  "trim s = rev (dropWhile js_whitespace (rev (dropWhile js_whitespace s)))"

text \<open>\<open>s.split(c)\<close> for a one-character separator: never the empty array.\<close>

fun split_on :: "'a \<Rightarrow> 'a list \<Rightarrow> 'a list list" where
  "split_on c [] = [[]]"
| "split_on c (x # xs) =
     (if x = c then [] # split_on c xs
      else (case split_on c xs of [] \<Rightarrow> [[x]] | y # ys \<Rightarrow> (x # y) # ys))"

text \<open>\<open>xs.join(sep)\<close>.\<close>

fun join_with :: "'a list \<Rightarrow> 'a list list \<Rightarrow> 'a list" where
  "join_with sep [] = []"
| "join_with sep [x] = x"
| "join_with sep (x # y # ys) = x @ sep @ join_with sep (y # ys)"

text \<open>\<open>s.indexOf(pat)\<close>: the first index at which \<open>pat\<close> occurs, \<open>None\<close> for \<open>-1\<close>.\<close>

fun indexOf :: "'a list \<Rightarrow> 'a list \<Rightarrow> nat option" where
  "indexOf [] pat = (if pat = [] then Some 0 else None)"
| "indexOf (x # xs) pat =
     (if prefix pat (x # xs) then Some 0 else map_option Suc (indexOf xs pat))"

definition includes_str :: "'a list \<Rightarrow> 'a list \<Rightarrow> bool" where
  "includes_str s pat = (indexOf s pat \<noteq> None)"

definition startsWith :: "'a list \<Rightarrow> 'a list \<Rightarrow> bool" where
  "startsWith s pat = prefix pat s"

text \<open>
  \<open>s.slice(a, b)\<close>: a negative index counts from the end, both indices are clamped to
  the string, and an empty range gives the empty string.
\<close>

definition slice_index :: "nat \<Rightarrow> int \<Rightarrow> nat" where
  "slice_index n i = (if i < 0 then nat (max (int n + i) 0) else min (nat i) n)"

definition slice :: "'a list \<Rightarrow> int \<Rightarrow> int \<Rightarrow> 'a list" where
  "slice s a b = drop (slice_index (length s) a) (take (slice_index (length s) b) s)"

text \<open>\<open>s.slice(a)\<close>, as in \<open>stderr.slice(-200)\<close>.\<close>

definition slice_from :: "'a list \<Rightarrow> int \<Rightarrow> 'a list" where
  "slice_from s a = drop (slice_index (length s) a) s"

text \<open>The decimal text of an integer, as a template literal prints it.\<close>

definition digit_char :: "nat \<Rightarrow> char" where
  "digit_char d = ''0123456789'' ! d"

fun digits :: "nat \<Rightarrow> string" where
  "digits n =
     (if n < 10 then [digit_char n]
      else digits (n div 10) @ [digit_char (n mod 10)])"

definition show_int :: "int \<Rightarrow> string" where
  "show_int i = (if i < 0 then CHR ''-'' # digits (nat (- i)) else digits (nat i))"

definition show_bool :: "bool \<Rightarrow> string" where
  "show_bool b = (if b then ''true'' else ''false'')"

section \<open>Paths and the file system\<close>

text \<open>
  \<open>path.join\<close> of the runtime, POSIX flavour. \<open>normalizeString\<close> walks the segments
  between separators: an empty segment and \<open>.\<close> are dropped, \<open>..\<close> removes the
  segment before it unless there is none or it is \<open>..\<close> itself, in which case it is
  kept only when the path is relative.
\<close>

definition normalize_step :: "bool \<Rightarrow> string list \<Rightarrow> string \<Rightarrow> string list" where
  "normalize_step allowAboveRoot res seg =
     (if seg = [] \<or> seg = ''.'' then res
      else if seg = ''..'' then
        (if res \<noteq> [] \<and> last res \<noteq> ''..'' then butlast res
         else if allowAboveRoot then res @ [''..''] else res)
      else res @ [seg])"

definition normalizeString :: "bool \<Rightarrow> string list \<Rightarrow> string list" where
  "normalizeString allowAboveRoot segs = foldl (normalize_step allowAboveRoot) [] segs"

definition isAbsolute :: "string \<Rightarrow> bool" where
  "isAbsolute p = (p \<noteq> [] \<and> hd p = CHR ''/'')"

definition normalize :: "string \<Rightarrow> string" where
  "normalize p =
     (if p = [] then ''.''
      else
        let trailingSeparator = (last p = CHR ''/'');
            segs = normalizeString (\<not> isAbsolute p) (split_on CHR ''/'' p)
        in if segs = [] then (if isAbsolute p then ''/'' else if trailingSeparator then ''./'' else ''.'')
           else (if isAbsolute p then ''/'' else []) @ join_with ''/'' segs
                @ (if trailingSeparator then ''/'' else []))"

definition path_join :: "string list \<Rightarrow> string" where
  "path_join args =
     (let joined = filter (\<lambda>a. a \<noteq> []) args
      in if joined = [] then ''.'' else normalize (join_with ''/'' joined))"

text \<open>
  The file system: the directories that exist and the contents of the files. Its
  operations are taken to succeed (no permission or disk error), except for reading a
  path that is not a file.
\<close>

record filesystem =
  dirs :: "string set"
  files :: "string \<rightharpoonup> string"

definition existsSync :: "filesystem \<Rightarrow> string \<Rightarrow> bool" where
  "existsSync fs p = (p \<in> dirs fs \<or> files fs p \<noteq> None)"

text \<open>The path itself and the directories above it, as \<open>recursive: true\<close> creates them.\<close>

definition ancestors_or_self :: "string \<Rightarrow> string list" where
  "ancestors_or_self p =
     (let segs = filter (\<lambda>s. s \<noteq> []) (split_on CHR ''/'' p)
      in map (\<lambda>k. (if isAbsolute p then ''/'' else []) @ join_with ''/'' (take k segs))
           [1..<Suc (length segs)])"

definition mkdirSync :: "filesystem \<Rightarrow> string \<Rightarrow> filesystem" where
  "mkdirSync fs p = fs\<lparr>dirs := dirs fs \<union> set (ancestors_or_self p)\<rparr>"

definition writeFileSync :: "filesystem \<Rightarrow> string \<Rightarrow> string \<Rightarrow> filesystem" where
  "writeFileSync fs p content = fs\<lparr>files := (files fs)(p \<mapsto> content)\<rparr>"

definition readFileSync :: "filesystem \<Rightarrow> string \<Rightarrow> string + string" where
  "readFileSync fs p =
     (case files fs p of
        None \<Rightarrow> Inl (''ENOENT or EISDIR: cannot read '' @ p)
      | Some content \<Rightarrow> Inr content)"

text \<open>What the process reads from its environment.\<close>

record host =
  env_HOME :: "string option"
  os_homedir :: string
  cwd :: string
  env_TZ :: "string option"
  resolved_timeZone :: string
  env_LOG_LEVEL :: "string option"

text \<open>\<open>a || b\<close> on a string that may be undefined.\<close>

definition or_string :: "string option \<Rightarrow> string \<Rightarrow> string" where
  "or_string a b = (case a of None \<Rightarrow> b | Some s \<Rightarrow> if s = [] then b else s)"

section \<open>JSON values\<close>

datatype json =
    JNull
  | JBool bool
  | JNum int
  | JStr string
  | JArr "json list"
  | JObj "(string \<times> json) list"

text \<open>
  The runtime's \<open>JSON.parse\<close> and \<open>JSON.stringify\<close> are not part of the repository:
  they are parameters. \<open>JSON_parse\<close> returns the message of the exception it throws
  (\<open>Inl\<close>) or the value; \<open>null_property_error\<close> is the message of the TypeError that
  reading a property of \<open>null\<close> throws.
\<close>

record runtime =
  JSON_parse :: "string \<Rightarrow> string + json"
  JSON_stringify :: "json \<Rightarrow> string"
  JSON_stringify_indent2 :: "json \<Rightarrow> string"
  null_property_error :: string

section \<open>Configuration and data model\<close>

text \<open>The constants of \<open>config.ts\<close>, which is not among the sources: parameters.\<close>

record config =
  CONTAINER_IMAGE :: string
  CONTAINER_TIMEOUT :: int
  CONTAINER_MAX_OUTPUT_SIZE :: int
  GROUPS_DIR :: string
  DATA_DIR :: string

definition OUTPUT_START_MARKER :: string where
  "OUTPUT_START_MARKER = ''---NANOCLAW_OUTPUT_START---''"

definition OUTPUT_END_MARKER :: string where
  "OUTPUT_END_MARKER = ''---NANOCLAW_OUTPUT_END---''"

record VolumeMount =
  hostPath :: string
  containerPath :: string
  readonly :: bool

text \<open>
  \<open>RegisteredGroup\<close> with the fields the runner reads. The type of a requested additional
  mount is declared in \<open>types.ts\<close>, not among the sources: a type parameter.
\<close>

record 'am ContainerConfig =
  additionalMounts :: "'am list option"
  timeout :: "int option"

record 'am RegisteredGroup =
  name :: string
  folder :: string
  containerConfig :: "'am ContainerConfig option"

text \<open>The fields \<open>groupFolder\<close> and \<open>isMain\<close> of the input carry the prefix
  \<open>input_\<close>, the plain names being parameters of the functions below.\<close>

record ContainerInput =
  prompt :: string
  sessionId :: "string option"
  input_groupFolder :: string
  chatJid :: string
  input_isMain :: bool
  currentTime :: string
  isScheduledTask :: "bool option"

text \<open>The \<open>ContainerOutput\<close> objects that the runner builds itself.\<close>

definition error_output :: "string \<Rightarrow> json" where
  "error_output msg =
     JObj [(''status'', JStr ''error''), (''result'', JNull), (''error'', JStr msg)]"

section \<open>The logger\<close>

datatype log_level = Debug | Info | Warn | Error

text \<open>A call of the logger: level, the payload object, the message.\<close>

type_synonym log_entry = "log_level \<times> (string \<times> json) list \<times> string"

section \<open>Draining the two output channels\<close>

text \<open>
  What the container process delivers while it runs, in the order the event loop
  handles it: a decoded chunk on stdout, a decoded chunk on stderr, or the timeout
  timer firing.
\<close>

datatype stream_event = StdoutChunk string | StderrChunk string | TimerFired

text \<open>The variables that the handlers of \<open>runContainerAgent\<close> share.\<close>

record capture =
  stdout :: string
  stderr :: string
  stdoutTruncated :: bool
  stderrTruncated :: bool
  timedOut :: bool
  killed :: bool
  logs :: "log_entry list"

definition initial_capture :: capture where
  "initial_capture =
     \<lparr>stdout = [], stderr = [], stdoutTruncated = False, stderrTruncated = False,
      timedOut = False, killed = False, logs = []\<rparr>"

definition log_call :: "log_entry \<Rightarrow> capture \<Rightarrow> capture" where
  "log_call e st = st\<lparr>logs := logs st @ [e]\<rparr>"

text \<open>The body of the \<open>setTimeout\<close> callback.\<close>

definition on_timeout :: "'am RegisteredGroup \<Rightarrow> capture \<Rightarrow> capture" where
  "on_timeout grp st =
     (log_call (Error, [(''group'', JStr (name grp))], ''Container timeout, killing'')
        (st\<lparr>timedOut := True\<rparr>))\<lparr>killed := True\<rparr>"

text \<open>One iteration of the loop of \<open>collectStream\<close> with \<open>isStdout\<close> true.\<close>

definition collect_stdout :: "config \<Rightarrow> 'am RegisteredGroup \<Rightarrow> string \<Rightarrow> capture \<Rightarrow> capture" where
  "collect_stdout cfg grp chunk st =
     (if stdoutTruncated st then st
      else
        let remaining = CONTAINER_MAX_OUTPUT_SIZE cfg - int (length (stdout st)) in
        if int (length chunk) > remaining then
          let st1 = st\<lparr>stdout := stdout st @ slice chunk 0 remaining,
                       stdoutTruncated := True\<rparr>
          in log_call (Warn,
                 [(''group'', JStr (name grp)), (''size'', JNum (int (length (stdout st1))))],
                 ''Container stdout truncated due to size limit'') st1
        else st\<lparr>stdout := stdout st @ chunk\<rparr>)"

text \<open>The logging of one stderr line.\<close>

definition log_stderr_line :: "'am RegisteredGroup \<Rightarrow> string \<Rightarrow> capture \<Rightarrow> capture" where
  "log_stderr_line grp line st =
     (if line = [] then st
      else if includes_str line ''Container time:'' \<or> includes_str line ''TZ env:''
      then log_call (Info, [(''container'', JStr (folder grp))], line) st
      else log_call (Debug, [(''container'', JStr (folder grp))], line) st)"

text \<open>One iteration of the loop of \<open>collectStream\<close> with \<open>isStdout\<close> false.\<close>

definition collect_stderr :: "config \<Rightarrow> 'am RegisteredGroup \<Rightarrow> string \<Rightarrow> capture \<Rightarrow> capture" where
  "collect_stderr cfg grp chunk st =
     (let st0 = foldl (\<lambda>s line. log_stderr_line grp line s) st (split_on newline (trim chunk)) in
      if stderrTruncated st0 then st0
      else
        let remaining = CONTAINER_MAX_OUTPUT_SIZE cfg - int (length (stderr st0)) in
        if int (length chunk) > remaining then
          let st1 = st0\<lparr>stderr := stderr st0 @ slice chunk 0 remaining,
                        stderrTruncated := True\<rparr>
          in log_call (Warn,
                 [(''group'', JStr (name grp)), (''size'', JNum (int (length (stderr st1))))],
                 ''Container stderr truncated due to size limit'') st1
        else st0\<lparr>stderr := stderr st0 @ chunk\<rparr>)"

definition handle_event :: "config \<Rightarrow> 'am RegisteredGroup \<Rightarrow> capture \<Rightarrow> stream_event \<Rightarrow> capture" where
  "handle_event cfg grp st ev =
     (case ev of
        StdoutChunk chunk \<Rightarrow> collect_stdout cfg grp chunk st
      | StderrChunk chunk \<Rightarrow> collect_stderr cfg grp chunk st
      | TimerFired \<Rightarrow> on_timeout grp st)"

text \<open>Both streams drained to their end, the timer callback run where it fired.\<close>

definition drain :: "config \<Rightarrow> 'am RegisteredGroup \<Rightarrow> stream_event list \<Rightarrow> capture" where
  "drain cfg grp evs = foldl (handle_event cfg grp) initial_capture evs"

text \<open>The text delivered on each channel.\<close>

fun delivered_stdout :: "stream_event list \<Rightarrow> string" where
  "delivered_stdout [] = []"
| "delivered_stdout (StdoutChunk c # evs) = c @ delivered_stdout evs"
| "delivered_stdout (_ # evs) = delivered_stdout evs"

fun delivered_stderr :: "stream_event list \<Rightarrow> string" where
  "delivered_stderr [] = []"
| "delivered_stderr (StderrChunk c # evs) = c @ delivered_stderr evs"
| "delivered_stderr (_ # evs) = delivered_stderr evs"

section \<open>Mount planning\<close>

definition getHomeDir :: "host \<Rightarrow> string + string" where
  "getHomeDir h =
     (let home = or_string (env_HOME h) (os_homedir h)
      in if home = []
         then Inl ''Unable to determine home directory: HOME environment variable is not set and os.homedir() returned empty''
         else Inr home)"

definition allowedVars :: "string list" where
  "allowedVars = [''CLAUDE_CODE_OAUTH_TOKEN'', ''ANTHROPIC_API_KEY'']"

text \<open>The predicate of the filter over the lines of \<open>.env\<close>.\<close>

definition env_line_allowed :: "string \<Rightarrow> bool" where
  "env_line_allowed line =
     (let trimmed = trim line
      in if trimmed = [] \<or> startsWith trimmed ''#'' then False
         else list_ex (\<lambda>v. startsWith trimmed (v @ ''='')) allowedVars)"

text \<open>The mounts that a group's configuration adds, through the validator of
  \<open>mount-security.ts\<close> (not among the sources: the parameter \<open>validateAdditionalMounts\<close>).\<close>

definition validatedMounts ::
  "('am list \<Rightarrow> string \<Rightarrow> bool \<Rightarrow> VolumeMount list) \<Rightarrow> 'am RegisteredGroup \<Rightarrow> bool \<Rightarrow> VolumeMount list" where
  "validatedMounts validateAdditionalMounts grp isMain =
     (case containerConfig grp of
        None \<Rightarrow> []
      | Some cc \<Rightarrow>
          (case additionalMounts cc of
             None \<Rightarrow> []
           | Some ams \<Rightarrow> validateAdditionalMounts ams (name grp) isMain))"

definition buildVolumeMounts ::
  "config \<Rightarrow> host \<Rightarrow> ('am list \<Rightarrow> string \<Rightarrow> bool \<Rightarrow> VolumeMount list) \<Rightarrow> filesystem \<Rightarrow>
   'am RegisteredGroup \<Rightarrow> bool \<Rightarrow> string + (VolumeMount list \<times> filesystem)" where
  "buildVolumeMounts cfg h validateAdditionalMounts fs grp isMain =
     (case getHomeDir h of
        Inl e \<Rightarrow> Inl e
      | Inr homeDir \<Rightarrow>
          let projectRoot = cwd h;
              globalDir = path_join [GROUPS_DIR cfg, ''global''];
              mounts1 =
                (if isMain then
                   [\<lparr>hostPath = projectRoot, containerPath = ''/workspace/project'', readonly = False\<rparr>,
                    \<lparr>hostPath = path_join [GROUPS_DIR cfg, folder grp],
                     containerPath = ''/workspace/group'', readonly = False\<rparr>]
                 else
                   [\<lparr>hostPath = path_join [GROUPS_DIR cfg, folder grp],
                     containerPath = ''/workspace/group'', readonly = False\<rparr>]
                   @ (if existsSync fs globalDir
                      then [\<lparr>hostPath = globalDir, containerPath = ''/workspace/global'',
                             readonly = True\<rparr>]
                      else []));
              groupSessionsDir = path_join [DATA_DIR cfg, ''sessions'', folder grp, ''.claude''];
              fs1 = mkdirSync fs groupSessionsDir;
              mounts2 = mounts1 @
                [\<lparr>hostPath = groupSessionsDir, containerPath = ''/home/node/.claude'',
                  readonly = False\<rparr>];
              groupIpcDir = path_join [DATA_DIR cfg, ''ipc'', folder grp];
              fs2 = mkdirSync fs1 (path_join [groupIpcDir, ''messages'']);
              fs3 = mkdirSync fs2 (path_join [groupIpcDir, ''tasks'']);
              mounts3 = mounts2 @
                [\<lparr>hostPath = groupIpcDir, containerPath = ''/workspace/ipc'', readonly = False\<rparr>];
              envDir = path_join [DATA_DIR cfg, ''env''];
              fs4 = mkdirSync fs3 envDir;
              envFile = path_join [projectRoot, ''.env'']
          in case (if existsSync fs4 envFile
                   then map_sum id (\<lambda>envContent. filter env_line_allowed (split_on newline envContent))
                          (readFileSync fs4 envFile)
                   else Inr []) of
               Inl e \<Rightarrow> Inl e
             | Inr filteredLines \<Rightarrow>
                 let hostTz = or_string (env_TZ h) (resolved_timeZone h);
                     envLines = filteredLines @ [''TZ='' @ hostTz];
                     fs5 = writeFileSync fs4 (path_join [envDir, ''env''])
                             (join_with [newline] envLines @ [newline]);
                     mounts4 = mounts3 @
                       [\<lparr>hostPath = envDir, containerPath = ''/workspace/env-dir'', readonly = True\<rparr>]
                 in Inr (mounts4 @ validatedMounts validateAdditionalMounts grp isMain, fs5))"

text \<open>One mount as launch arguments: \<open>--mount\<close> when read-only, \<open>-v\<close> otherwise.\<close>

definition mount_args :: "VolumeMount \<Rightarrow> string list" where
  "mount_args m =
     (if readonly m
      then [''--mount'', ''type=bind,source='' @ hostPath m @ '',target='' @ containerPath m @ '',readonly'']
      else [''-v'', hostPath m @ '':'' @ containerPath m])"

definition buildContainerArgs :: "config \<Rightarrow> VolumeMount list \<Rightarrow> string list" where
  "buildContainerArgs cfg mounts =
     [''run'', ''-i'', ''--rm''] @ concat (map mount_args mounts) @ [CONTAINER_IMAGE cfg]"

section \<open>Snapshots\<close>

record task =
  task_id :: string
  task_groupFolder :: string
  task_prompt :: string
  schedule_type :: string
  schedule_value :: string
  task_status :: string
  next_run :: "string option"

definition task_json :: "task \<Rightarrow> json" where
  "task_json t =
     JObj [(''id'', JStr (task_id t)), (''groupFolder'', JStr (task_groupFolder t)),
           (''prompt'', JStr (task_prompt t)), (''schedule_type'', JStr (schedule_type t)),
           (''schedule_value'', JStr (schedule_value t)), (''status'', JStr (task_status t)),
           (''next_run'', (case next_run t of None \<Rightarrow> JNull | Some r \<Rightarrow> JStr r))]"

text \<open>The constant \<open>filteredTasks\<close> of \<open>writeTasksSnapshot\<close>.\<close>

definition filteredTasks :: "string \<Rightarrow> bool \<Rightarrow> task list \<Rightarrow> task list" where
  "filteredTasks groupFolder isMain tasks =
     (if isMain then tasks else filter (\<lambda>t. task_groupFolder t = groupFolder) tasks)"

definition writeTasksSnapshot ::
  "config \<Rightarrow> runtime \<Rightarrow> filesystem \<Rightarrow> string \<Rightarrow> bool \<Rightarrow> task list \<Rightarrow> filesystem" where
  "writeTasksSnapshot cfg rt fs groupFolder isMain tasks =
     (let groupIpcDir = path_join [DATA_DIR cfg, ''ipc'', groupFolder];
          fs1 = mkdirSync fs groupIpcDir;
          tasksFile = path_join [groupIpcDir, ''current_tasks.json'']
      in writeFileSync fs1 tasksFile
           (JSON_stringify_indent2 rt
              (JArr (map task_json (filteredTasks groupFolder isMain tasks)))))"

record AvailableGroup =
  jid :: string
  ag_name :: string
  lastActivity :: string
  isRegistered :: bool

definition AvailableGroup_json :: "AvailableGroup \<Rightarrow> json" where
  "AvailableGroup_json g =
     JObj [(''jid'', JStr (jid g)), (''name'', JStr (ag_name g)),
           (''lastActivity'', JStr (lastActivity g)), (''isRegistered'', JBool (isRegistered g))]"

text \<open>\<open>now\<close> is the reading of the clock, \<open>new Date().toISOString()\<close>.\<close>

text \<open>The constant \<open>visibleGroups\<close> of \<open>writeGroupsSnapshot\<close>.\<close>

definition visibleGroups :: "bool \<Rightarrow> AvailableGroup list \<Rightarrow> AvailableGroup list" where
  "visibleGroups isMain groups = (if isMain then groups else [])"

definition writeGroupsSnapshot ::
  "config \<Rightarrow> runtime \<Rightarrow> filesystem \<Rightarrow> string \<Rightarrow> string \<Rightarrow> bool \<Rightarrow> AvailableGroup list \<Rightarrow>
   string set \<Rightarrow> filesystem" where
  "writeGroupsSnapshot cfg rt fs now groupFolder isMain groups registeredJids =
     (let groupIpcDir = path_join [DATA_DIR cfg, ''ipc'', groupFolder];
          fs1 = mkdirSync fs groupIpcDir;
          groupsFile = path_join [groupIpcDir, ''available_groups.json'']
      in writeFileSync fs1 groupsFile
           (JSON_stringify_indent2 rt
              (JObj [(''groups'', JArr (map AvailableGroup_json (visibleGroups isMain groups))),
                     (''lastSync'', JStr now)])))"

section \<open>Running the container\<close>

text \<open>
  What happens once the process is spawned, as the runner observes it: the events of
  the drain in their order, the exit code, and the readings of the clock taken after
  the exit (\<open>Date.now()\<close>, then \<open>new Date().toISOString()\<close> twice).
\<close>

record execution =
  events :: "stream_event list"
  exit_code :: int
  endTime :: int
  iso_logname :: string
  iso_stamp :: string

text \<open>
  What an invocation leaves behind: the value returned, the file system, the calls of
  the logger, whether \<open>container.kill()\<close> was called, and the strings handed to
  \<open>JSON.parse\<close>.
\<close>

record run_result =
  returned :: json
  fs_after :: filesystem
  run_logs :: "log_entry list"
  process_killed :: bool
  parse_calls :: "string list"

text \<open>\<open>group.containerConfig?.timeout || CONTAINER_TIMEOUT\<close>.\<close>

definition timeoutMs :: "config \<Rightarrow> 'am RegisteredGroup \<Rightarrow> int" where
  "timeoutMs cfg grp =
     (case containerConfig grp of
        None \<Rightarrow> CONTAINER_TIMEOUT cfg
      | Some cc \<Rightarrow>
          (case timeout cc of
             None \<Rightarrow> CONTAINER_TIMEOUT cfg
           | Some t \<Rightarrow> if t = 0 then CONTAINER_TIMEOUT cfg else t))"

definition ContainerInput_json :: "ContainerInput \<Rightarrow> json" where
  "ContainerInput_json input =
     JObj ([(''prompt'', JStr (prompt input))]
           @ (case sessionId input of None \<Rightarrow> [] | Some sid \<Rightarrow> [(''sessionId'', JStr sid)])
           @ [(''groupFolder'', JStr (input_groupFolder input)),
              (''chatJid'', JStr (chatJid input)),
              (''isMain'', JBool (input_isMain input)),
              (''currentTime'', JStr (currentTime input))]
           @ (case isScheduledTask input of None \<Rightarrow> [] | Some b \<Rightarrow> [(''isScheduledTask'', JBool b)]))"

text \<open>A mount as the log prints it, with and without the host path.\<close>

definition mount_line :: "VolumeMount \<Rightarrow> string" where
  "mount_line m =
     hostPath m @ '' -> '' @ containerPath m @ (if readonly m then '' (ro)'' else [])"

definition mount_line_short :: "VolumeMount \<Rightarrow> string" where
  "mount_line_short m = containerPath m @ (if readonly m then '' (ro)'' else [])"

text \<open>The array \<open>logLines\<close>, the content of the log file of a run.\<close>

definition logLines ::
  "runtime \<Rightarrow> bool \<Rightarrow> 'am RegisteredGroup \<Rightarrow> ContainerInput \<Rightarrow> VolumeMount list \<Rightarrow> string list \<Rightarrow>
   capture \<Rightarrow> int \<Rightarrow> int \<Rightarrow> string \<Rightarrow> string list" where
  "logLines rt isVerbose grp input mounts containerArgs st code duration stamp =
     [''=== Container Run Log ==='',
      ''Timestamp: '' @ stamp,
      ''Group: '' @ name grp,
      ''IsMain: '' @ show_bool (input_isMain input),
      ''Duration: '' @ show_int duration @ ''ms'',
      ''Exit Code: '' @ show_int code,
      ''Stdout Truncated: '' @ show_bool (stdoutTruncated st),
      ''Stderr Truncated: '' @ show_bool (stderrTruncated st),
      []]
     @ (if isVerbose then
          [''=== Input ==='',
           JSON_stringify_indent2 rt (ContainerInput_json input),
           [],
           ''=== Container Args ==='',
           join_with '' '' containerArgs,
           [],
           ''=== Mounts ==='',
           join_with [newline] (map mount_line mounts),
           [],
           ''=== Stderr'' @ (if stderrTruncated st then '' (TRUNCATED)'' else []) @ '' ==='',
           stderr st,
           [],
           ''=== Stdout'' @ (if stdoutTruncated st then '' (TRUNCATED)'' else []) @ '' ==='',
           stdout st]
        else
          [''=== Input Summary ==='',
           ''Prompt length: '' @ show_int (int (length (prompt input))) @ '' chars'',
           ''Session ID: '' @ or_string (sessionId input) ''new'',
           [],
           ''=== Mounts ==='',
           join_with [newline] (map mount_line_short mounts),
           []]
          @ (if code \<noteq> 0
             then [''=== Stderr (last 500 chars) ==='', slice_from (stderr st) (- 500), []]
             else []))"

subsection \<open>Extraction of the result\<close>

text \<open>The string \<open>jsonLine\<close>: between the markers, or the last line.\<close>

definition extract_candidate :: "string \<Rightarrow> string" where
  "extract_candidate out =
     (case (indexOf out OUTPUT_START_MARKER, indexOf out OUTPUT_END_MARKER) of
        (Some startIdx, Some endIdx) \<Rightarrow>
          if endIdx > startIdx
          then trim (slice out (int (startIdx + length OUTPUT_START_MARKER)) (int endIdx))
          else last (split_on newline (trim out))
      | _ \<Rightarrow> last (split_on newline (trim out)))"

text \<open>Reading a property of a parsed value: \<open>undefined\<close> unless it is an object that has it.\<close>

definition property :: "json \<Rightarrow> string \<Rightarrow> json option" where
  "property v k = (case v of JObj kvs \<Rightarrow> map_of kvs k | _ \<Rightarrow> None)"

definition truthy :: "json option \<Rightarrow> bool" where
  "truthy v =
     (case v of
        None \<Rightarrow> False
      | Some JNull \<Rightarrow> False
      | Some (JBool b) \<Rightarrow> b
      | Some (JNum n) \<Rightarrow> n \<noteq> 0
      | Some (JStr s) \<Rightarrow> s \<noteq> []
      | Some _ \<Rightarrow> True)"

text \<open>
  The body of the \<open>try\<close> block: \<open>Inl\<close> is the message of the exception thrown, by
  \<open>JSON.parse\<close> or by reading \<open>output.status\<close> of \<open>null\<close>; \<open>Inr\<close> is the value
  returned, with the call of the logger made before.
\<close>

definition try_parse ::
  "runtime \<Rightarrow> 'am RegisteredGroup \<Rightarrow> int \<Rightarrow> string \<Rightarrow> string + (json \<times> log_entry)" where
  "try_parse rt grp duration out =
     (case JSON_parse rt (extract_candidate out) of
        Inl msg \<Rightarrow> Inl msg
      | Inr parsed \<Rightarrow>
          if parsed = JNull then Inl (null_property_error rt)
          else Inr (parsed,
                 (Info,
                  [(''group'', JStr (name grp)), (''duration'', JNum duration)]
                  @ (case property parsed ''status'' of None \<Rightarrow> [] | Some v \<Rightarrow> [(''status'', v)])
                  @ [(''hasResult'', JBool (truthy (property parsed ''result'')))],
                  ''Container completed'')))"

subsection \<open>After the exit\<close>

text \<open>
  \<open>runContainerAgent\<close> from \<open>clearTimeout\<close> on: \<open>fs\<close> and \<open>logs0\<close> are the file
  system and the logger calls at that point, \<open>st\<close> the variables the drain left.
\<close>

definition finish ::
  "config \<Rightarrow> host \<Rightarrow> runtime \<Rightarrow> 'am RegisteredGroup \<Rightarrow> ContainerInput \<Rightarrow> VolumeMount list \<Rightarrow>
   string list \<Rightarrow> string \<Rightarrow> int \<Rightarrow> filesystem \<Rightarrow> log_entry list \<Rightarrow> capture \<Rightarrow> execution \<Rightarrow> run_result" where
  "finish cfg h rt grp input mounts containerArgs logsDir startTime fs logs0 st ex =
     (if timedOut st then
        \<lparr>returned = error_output (''Container timed out after '' @ show_int (timeoutMs cfg grp) @ ''ms''),
         fs_after = fs, run_logs = logs0 @ logs st, process_killed = killed st, parse_calls = []\<rparr>
      else
        let code = exit_code ex;
            duration = endTime ex - startTime;
            timestamp = map (\<lambda>c. if c = CHR '':'' \<or> c = CHR ''.'' then CHR ''-'' else c) (iso_logname ex);
            logFile = path_join [logsDir, ''container-'' @ timestamp @ ''.log''];
            isVerbose = (env_LOG_LEVEL h = Some ''debug'' \<or> env_LOG_LEVEL h = Some ''trace'');
            fs1 = writeFileSync fs logFile
                    (join_with [newline]
                       (logLines rt isVerbose grp input mounts containerArgs st code duration (iso_stamp ex)));
            logs1 = logs0 @ logs st @
                    [(Debug, [(''logFile'', JStr logFile), (''verbose'', JBool isVerbose)],
                      ''Container log written'')]
        in if code \<noteq> 0 then
             \<lparr>returned = error_output (''Container exited with code '' @ show_int code @ '': ''
                                      @ slice_from (stderr st) (- 200)),
              fs_after = fs1,
              run_logs = logs1 @
                [(Error,
                  [(''group'', JStr (name grp)), (''code'', JNum code), (''duration'', JNum duration),
                   (''stderr'', JStr (slice_from (stderr st) (- 500))), (''logFile'', JStr logFile)],
                  ''Container exited with error'')],
              process_killed = killed st, parse_calls = []\<rparr>
           else
             (case try_parse rt grp duration (stdout st) of
                Inr (parsed, entry) \<Rightarrow>
                  \<lparr>returned = parsed, fs_after = fs1, run_logs = logs1 @ [entry],
                   process_killed = killed st, parse_calls = [extract_candidate (stdout st)]\<rparr>
              | Inl msg \<Rightarrow>
                  \<lparr>returned = error_output (''Failed to parse container output: '' @ msg),
                   fs_after = fs1,
                   run_logs = logs1 @
                     [(Error,
                       [(''group'', JStr (name grp)),
                        (''stdout'', JStr (slice_from (stdout st) (- 500))),
                        (''error'', JStr msg)],
                       ''Failed to parse container output'')],
                   process_killed = killed st, parse_calls = [extract_candidate (stdout st)]\<rparr>))"

subsection \<open>The whole invocation\<close>

text \<open>
  \<open>spawn\<close> stands for \<open>Bun.spawn\<close> and what follows from it: given the command line and
  the text written to stdin, the message of the exception it throws (\<open>Inl\<close>) or the
  execution the runner then observes. \<open>startTime\<close> is the first reading of the clock.
  The result is \<open>Inl\<close> when an exception leaves \<open>runContainerAgent\<close>.
\<close>

definition runContainerAgent ::
  "config \<Rightarrow> host \<Rightarrow> runtime \<Rightarrow> ('am list \<Rightarrow> string \<Rightarrow> bool \<Rightarrow> VolumeMount list) \<Rightarrow>
   (string list \<Rightarrow> string \<Rightarrow> string + execution) \<Rightarrow> int \<Rightarrow> filesystem \<Rightarrow>
   'am RegisteredGroup \<Rightarrow> ContainerInput \<Rightarrow> string + run_result" where
  "runContainerAgent cfg h rt validateAdditionalMounts spawn startTime fs grp input =
     (let groupDir = path_join [GROUPS_DIR cfg, folder grp];
          fs0 = mkdirSync fs groupDir
      in case buildVolumeMounts cfg h validateAdditionalMounts fs0 grp (input_isMain input) of
           Inl e \<Rightarrow> Inl e
         | Inr (mounts, fs1) \<Rightarrow>
             let containerArgs = buildContainerArgs cfg mounts;
                 logs0 =
                   [(Debug,
                     [(''group'', JStr (name grp)),
                      (''mounts'', JArr (map (\<lambda>m. JStr (mount_line m)) mounts)),
                      (''containerArgs'', JStr (join_with '' '' containerArgs))],
                     ''Container mount configuration''),
                    (Info,
                     [(''group'', JStr (name grp)), (''mountCount'', JNum (int (length mounts))),
                      (''isMain'', JBool (input_isMain input))],
                     ''Spawning container agent'')];
                 logsDir = path_join [GROUPS_DIR cfg, folder grp, ''logs''];
                 fs2 = mkdirSync fs1 logsDir
             in case spawn (''container'' # containerArgs) (JSON_stringify rt (ContainerInput_json input)) of
                  Inl e \<Rightarrow> Inl e
                | Inr ex \<Rightarrow>
                    Inr (finish cfg h rt grp input mounts containerArgs logsDir startTime fs2 logs0
                           (drain cfg grp (events ex)) ex))"

text \<open>The invocation gets as far as a spawned process, whose execution is \<open>ex\<close>.\<close>

definition spawned ::
  "config \<Rightarrow> host \<Rightarrow> runtime \<Rightarrow> ('am list \<Rightarrow> string \<Rightarrow> bool \<Rightarrow> VolumeMount list) \<Rightarrow>
   (string list \<Rightarrow> string \<Rightarrow> string + execution) \<Rightarrow> filesystem \<Rightarrow>
   'am RegisteredGroup \<Rightarrow> ContainerInput \<Rightarrow> execution \<Rightarrow> bool" where
  "spawned cfg h rt validateAdditionalMounts spawn fs grp input ex =
     (case buildVolumeMounts cfg h validateAdditionalMounts
             (mkdirSync fs (path_join [GROUPS_DIR cfg, folder grp])) grp (input_isMain input) of
        Inl e \<Rightarrow> False
      | Inr (mounts, fs1) \<Rightarrow>
          spawn (''container'' # buildContainerArgs cfg mounts)
                (JSON_stringify rt (ContainerInput_json input)) = Inr ex)"

section \<open>Notions used in the statements\<close>

text \<open>
  What holds of a channel's buffer after any number of events, \<open>d\<close> being the text
  delivered on the channel so far.
\<close>

definition stdout_inv :: "int \<Rightarrow> capture \<Rightarrow> string \<Rightarrow> bool" where
  "stdout_inv cap st d =
     (if stdoutTruncated st then int (length d) > cap \<and> stdout st = take (nat cap) d
      else int (length d) \<le> cap \<and> stdout st = d)"

definition stderr_inv :: "int \<Rightarrow> capture \<Rightarrow> string \<Rightarrow> bool" where
  "stderr_inv cap st d =
     (if stderrTruncated st then int (length d) > cap \<and> stderr st = take (nat cap) d
      else int (length d) \<le> cap \<and> stderr st = d)"

text \<open>The path of the log file of a run, \<open>logFile\<close> in the source.\<close>

definition logFile_of :: "string \<Rightarrow> execution \<Rightarrow> string" where
  "logFile_of logsDir ex =
     path_join [logsDir, ''container-''
        @ map (\<lambda>c. if c = CHR '':'' \<or> c = CHR ''.'' then CHR ''-'' else c) (iso_logname ex) @ ''.log'']"

text \<open>The override of the timeout in a group's configuration, when there is one.\<close>

definition timeout_override :: "'am RegisteredGroup \<Rightarrow> int option" where
  "timeout_override grp = (case containerConfig grp of None \<Rightarrow> None | Some cc \<Rightarrow> timeout cc)"

text \<open>
  The configured timeout in the words of the specification: the tenant's override if
  present, else the system default.
\<close>

definition spec_configured_timeout :: "config \<Rightarrow> 'am RegisteredGroup \<Rightarrow> int" where
  "spec_configured_timeout cfg grp =
     (case timeout_override grp of None \<Rightarrow> CONTAINER_TIMEOUT cfg | Some t \<Rightarrow> t)"

text \<open>The sandbox paths of the mounts that \<open>buildVolumeMounts\<close> adds by itself.\<close>

definition builtin_containerPaths :: "string set" where
  "builtin_containerPaths =
     {''/workspace/project'', ''/workspace/group'', ''/workspace/global'', ''/home/node/.claude'',
      ''/workspace/ipc'', ''/workspace/env-dir''}"

text \<open>
  Occurrences of a pattern in a string, stated without \<open>indexOf\<close>: the pattern is
  at index \<open>i\<close>; it is there and at no smaller index.
\<close>

definition occurs_at :: "'a list \<Rightarrow> 'a list \<Rightarrow> nat \<Rightarrow> bool" where
  "occurs_at s pat i = (i \<le> length s \<and> prefix pat (drop i s))"

definition first_occurrence :: "'a list \<Rightarrow> 'a list \<Rightarrow> nat \<Rightarrow> bool" where
  "first_occurrence s pat i = (occurs_at s pat i \<and> (\<forall>k<i. \<not> occurs_at s pat k))"



text \<open>
  The segments of a path after normalisation, and a lexical reading of "equals, is
  above or is below": one list of segments is a prefix of the other. The reading is
  right for two paths of the same kind (both absolute or both relative) that keep no
  \<open>..\<close> after normalisation, without symbolic links; two paths that the texts cannot
  compare count as related.
\<close>

definition path_segments :: "string \<Rightarrow> string list" where
  "path_segments p = normalizeString (\<not> isAbsolute p) (split_on CHR ''/'' p)"

text \<open>A folder name that is one path segment: not empty, not \<open>.\<close> or \<open>..\<close>, no separator.\<close>

definition plain_segment :: "string \<Rightarrow> bool" where
  "plain_segment s = (s \<noteq> [] \<and> s \<noteq> ''.'' \<and> s \<noteq> ''..'' \<and> CHR ''/'' \<notin> set s)"

definition lexically_comparable :: "string \<Rightarrow> string \<Rightarrow> bool" where
  "lexically_comparable p q =
     (isAbsolute p = isAbsolute q \<and> ''..'' \<notin> set (path_segments p) \<and> ''..'' \<notin> set (path_segments q))"

definition path_related :: "string \<Rightarrow> string \<Rightarrow> bool" where
  "path_related p q =
     (\<not> lexically_comparable p q
      \<or> prefix (path_segments p) (path_segments q) \<or> prefix (path_segments q) (path_segments p))"

text \<open>The session directory and the IPC directory of a folder, as \<open>buildVolumeMounts\<close> names them.\<close>

definition groupSessionsDir :: "config \<Rightarrow> string \<Rightarrow> string" where
  "groupSessionsDir cfg f = path_join [DATA_DIR cfg, ''sessions'', f, ''.claude'']"

definition groupIpcDir :: "config \<Rightarrow> string \<Rightarrow> string" where
  "groupIpcDir cfg f = path_join [DATA_DIR cfg, ''ipc'', f]"

section \<open>Example inputs\<close>

definition example_config :: config where
  "example_config =
     \<lparr>CONTAINER_IMAGE = ''nanoclaw-agent:latest'', CONTAINER_TIMEOUT = 300000,
      CONTAINER_MAX_OUTPUT_SIZE = 10485760, GROUPS_DIR = ''/srv/groups'', DATA_DIR = ''/srv/data''\<rparr>"

definition example_group :: "VolumeMount RegisteredGroup" where
  "example_group = \<lparr>name = ''Family'', folder = ''family'', containerConfig = None\<rparr>"

definition small_cap_config :: config where
  "small_cap_config = example_config\<lparr>CONTAINER_MAX_OUTPUT_SIZE := 5\<rparr>"

definition example_task :: "string \<Rightarrow> string \<Rightarrow> task" where
  "example_task i f =
     \<lparr>task_id = i, task_groupFolder = f, task_prompt = ''remind'', schedule_type = ''cron'',
      schedule_value = ''0 9 * * *'', task_status = ''active'', next_run = None\<rparr>"

definition example_available :: "string \<Rightarrow> AvailableGroup" where
  "example_available j =
     \<lparr>jid = j, ag_name = ''Chat'', lastActivity = ''2026-01-01T00:00:00.000Z'',
      isRegistered = False\<rparr>"

text \<open>A runtime around a given parser; no example below looks at serialised text.\<close>

definition example_runtime :: "(string \<Rightarrow> string + json) \<Rightarrow> runtime" where
  "example_runtime parse =
     \<lparr>JSON_parse = parse, JSON_stringify = (\<lambda>v. ''<json>''),
      JSON_stringify_indent2 = (\<lambda>v. ''<json>''),
      null_property_error = ''null is not an object''\<rparr>"

definition empty_filesystem :: filesystem where
  "empty_filesystem = \<lparr>dirs = {}, files = Map.empty\<rparr>"

definition example_host :: host where
  "example_host =
     \<lparr>env_HOME = Some ''/home/op'', os_homedir = ''/home/op'', cwd = ''/srv/nanoclaw'',
      env_TZ = None, resolved_timeZone = ''UTC'', env_LOG_LEVEL = None\<rparr>"

definition example_filesystem :: filesystem where
  "example_filesystem =
     \<lparr>dirs = {''/srv/nanoclaw''}, files = [''/srv/nanoclaw/.env'' \<mapsto> ''ANTHROPIC_API_KEY=k'']\<rparr>"

definition example_input :: ContainerInput where
  "example_input =
     \<lparr>prompt = ''hello'', sessionId = None, input_groupFolder = ''family'', chatJid = ''1@g.us'',
      input_isMain = False, currentTime = ''2026-01-01T10:00:00.000+01:00'', isScheduledTask = None\<rparr>"

definition example_execution :: "stream_event list \<Rightarrow> int \<Rightarrow> execution" where
  "example_execution evs code =
     \<lparr>events = evs, exit_code = code, endTime = 1500,
      iso_logname = ''2026-01-01T09:00:01.500Z'', iso_stamp = ''2026-01-01T09:00:01.501Z''\<rparr>"

text \<open>A spawn that succeeds and is followed by the given execution.\<close>

definition example_spawn :: "execution \<Rightarrow> string list \<Rightarrow> string \<Rightarrow> string + execution" where
  "example_spawn ex args stdin = Inr ex"

definition example_success_line :: string where
  \<open>example_success_line = ''{"status":"success","result":"ok"}''\<close>

definition example_success :: json where
  "example_success = JObj [(''status'', JStr ''success''), (''result'', JStr ''ok'')]"

text \<open>A parser that knows three JSON texts and rejects every other string.\<close>

definition example_parse :: "string \<Rightarrow> string + json" where
  "example_parse s =
     (if s = example_success_line then Inr example_success
      else if s = ''null'' then Inr JNull
      else if s = ''5'' then Inr (JNum 5)
      else Inl ''Unexpected token'')"

text \<open>A validator that accepts every requested mount as it is.\<close>

definition accept_all :: "VolumeMount list \<Rightarrow> string \<Rightarrow> bool \<Rightarrow> VolumeMount list" where
  "accept_all requested groupName isMain = requested"

definition group_with_timeout :: "int \<Rightarrow> VolumeMount RegisteredGroup" where
  "group_with_timeout t =
     \<lparr>name = ''Family'', folder = ''family'',
      containerConfig = Some \<lparr>additionalMounts = None, timeout = Some t\<rparr>\<rparr>"

text \<open>An output with noise before and after the delimited payload, which is not JSON.\<close>

definition example_noisy_output :: string where
  "example_noisy_output =
     ''###'' @ [newline] @ OUTPUT_START_MARKER @ ''{bad'' @ OUTPUT_END_MARKER @ [newline] @ ''@@@@''"

text \<open>An output with the payload between the markers and noise around them.\<close>

definition example_wrapped_output :: string where
  "example_wrapped_output =
     ''noise'' @ [newline] @ OUTPUT_START_MARKER @ [newline] @ example_success_line @ [newline]
     @ OUTPUT_END_MARKER @ [newline] @ ''more noise''"

text \<open>A group whose two additional mounts ask for the same sandbox path.\<close>

definition colliding_group :: "VolumeMount RegisteredGroup" where
  "colliding_group =
     \<lparr>name = ''Family'', folder = ''family'',
      containerConfig = Some
        \<lparr>additionalMounts = Some
           [\<lparr>hostPath = ''/srv/shared/a'', containerPath = ''/workspace/extra/shared'',
             readonly = False\<rparr>,
            \<lparr>hostPath = ''/srv/shared/b'', containerPath = ''/workspace/extra/shared'',
             readonly = True\<rparr>],
         timeout = None\<rparr>\<rparr>"

definition group_in_folder :: "string \<Rightarrow> VolumeMount RegisteredGroup" where
  "group_in_folder f = \<lparr>name = ''Group'', folder = f, containerConfig = None\<rparr>"

section \<open>The output cap\<close>

lemma slice_take: "0 \<le> r \<Longrightarrow> slice chunk 0 r = take (nat r) chunk"
  by (simp add: slice_def slice_index_def min_def)

lemma log_stderr_line_fields:
  "stdout (log_stderr_line grp line st) = stdout st"
  "stderr (log_stderr_line grp line st) = stderr st"
  "stdoutTruncated (log_stderr_line grp line st) = stdoutTruncated st"
  "stderrTruncated (log_stderr_line grp line st) = stderrTruncated st"
  "timedOut (log_stderr_line grp line st) = timedOut st"
  "killed (log_stderr_line grp line st) = killed st"
  by (simp_all add: log_stderr_line_def log_call_def)

lemma log_stderr_lines_fields:
  "stdout (foldl (\<lambda>s line. log_stderr_line grp line s) st ls) = stdout st"
  "stderr (foldl (\<lambda>s line. log_stderr_line grp line s) st ls) = stderr st"
  "stdoutTruncated (foldl (\<lambda>s line. log_stderr_line grp line s) st ls) = stdoutTruncated st"
  "stderrTruncated (foldl (\<lambda>s line. log_stderr_line grp line s) st ls) = stderrTruncated st"
  "timedOut (foldl (\<lambda>s line. log_stderr_line grp line s) st ls) = timedOut st"
  "killed (foldl (\<lambda>s line. log_stderr_line grp line s) st ls) = killed st"
  by (induction ls arbitrary: st; simp add: log_stderr_line_fields)+

lemma stdout_inv_step:
  assumes "0 \<le> CONTAINER_MAX_OUTPUT_SIZE cfg" "stdout_inv (CONTAINER_MAX_OUTPUT_SIZE cfg) st d"
  shows "stdout_inv (CONTAINER_MAX_OUTPUT_SIZE cfg) (handle_event cfg grp st ev) (d @ delivered_stdout [ev])"
proof (cases ev)
  case (StdoutChunk c)
  then show ?thesis using assms
    by (auto simp: handle_event_def collect_stdout_def stdout_inv_def Let_def log_call_def slice_take nat_diff_distrib)
next
  case (StderrChunk c)
  then show ?thesis using assms
    by (simp add: handle_event_def collect_stderr_def stdout_inv_def Let_def log_call_def log_stderr_lines_fields)
next
  case TimerFired
  then show ?thesis using assms
    by (simp add: handle_event_def on_timeout_def stdout_inv_def log_call_def)
qed

lemma delivered_stdout_Cons: "delivered_stdout (ev # evs) = delivered_stdout [ev] @ delivered_stdout evs"
  by (cases ev) simp_all

lemma stdout_inv_fold:
  assumes "0 \<le> CONTAINER_MAX_OUTPUT_SIZE cfg"
  shows "stdout_inv (CONTAINER_MAX_OUTPUT_SIZE cfg) st d \<Longrightarrow>
     stdout_inv (CONTAINER_MAX_OUTPUT_SIZE cfg) (foldl (handle_event cfg grp) st evs) (d @ delivered_stdout evs)"
proof (induction evs arbitrary: st d)
  case Nil
  then show ?case by simp
next
  case (Cons ev evs)
  have "stdout_inv (CONTAINER_MAX_OUTPUT_SIZE cfg) (handle_event cfg grp st ev) (d @ delivered_stdout [ev])"
    using assms Cons.prems by (rule stdout_inv_step)
  from Cons.IH [OF this] show ?case
    by (subst delivered_stdout_Cons) simp
qed

lemma stderr_inv_step:
  assumes "0 \<le> CONTAINER_MAX_OUTPUT_SIZE cfg" "stderr_inv (CONTAINER_MAX_OUTPUT_SIZE cfg) st d"
  shows "stderr_inv (CONTAINER_MAX_OUTPUT_SIZE cfg) (handle_event cfg grp st ev) (d @ delivered_stderr [ev])"
proof (cases ev)
  case (StdoutChunk c)
  then show ?thesis using assms
    by (simp add: handle_event_def collect_stdout_def stderr_inv_def Let_def log_call_def)
next
  case (StderrChunk c)
  then show ?thesis using assms
    by (auto simp: handle_event_def collect_stderr_def stderr_inv_def Let_def log_call_def
          log_stderr_lines_fields slice_take nat_diff_distrib)
next
  case TimerFired
  then show ?thesis using assms
    by (simp add: handle_event_def on_timeout_def stderr_inv_def log_call_def)
qed

lemma delivered_stderr_Cons: "delivered_stderr (ev # evs) = delivered_stderr [ev] @ delivered_stderr evs"
  by (cases ev) simp_all

lemma stderr_inv_fold:
  assumes "0 \<le> CONTAINER_MAX_OUTPUT_SIZE cfg"
  shows "stderr_inv (CONTAINER_MAX_OUTPUT_SIZE cfg) st d \<Longrightarrow>
     stderr_inv (CONTAINER_MAX_OUTPUT_SIZE cfg) (foldl (handle_event cfg grp) st evs) (d @ delivered_stderr evs)"
proof (induction evs arbitrary: st d)
  case Nil
  then show ?case by simp
next
  case (Cons ev evs)
  have "stderr_inv (CONTAINER_MAX_OUTPUT_SIZE cfg) (handle_event cfg grp st ev) (d @ delivered_stderr [ev])"
    using assms Cons.prems by (rule stderr_inv_step)
  from Cons.IH [OF this] show ?case
    by (subst delivered_stderr_Cons) simp
qed

lemma drain_stdout_inv:
  "0 \<le> CONTAINER_MAX_OUTPUT_SIZE cfg \<Longrightarrow>
   stdout_inv (CONTAINER_MAX_OUTPUT_SIZE cfg) (drain cfg grp evs) (delivered_stdout evs)"
  using stdout_inv_fold [of cfg initial_capture "[]" grp evs]
  by (simp add: drain_def stdout_inv_def initial_capture_def)

lemma drain_stderr_inv:
  "0 \<le> CONTAINER_MAX_OUTPUT_SIZE cfg \<Longrightarrow>
   stderr_inv (CONTAINER_MAX_OUTPUT_SIZE cfg) (drain cfg grp evs) (delivered_stderr evs)"
  using stderr_inv_fold [of cfg initial_capture "[]" grp evs]
  by (simp add: drain_def stderr_inv_def initial_capture_def)

text \<open>
  C2. Whatever the interleaving of the chunks of the two channels and of the timer, and
  for a cap that is not negative: a channel on which more text than the cap was
  delivered retains exactly the first \<open>CONTAINER_MAX_OUTPUT_SIZE\<close> code units of it
  and has its truncation flag set; a channel that stayed within the cap retains the
  delivered text unchanged and its flag is unset.
\<close>

theorem collectStream_cap:
  assumes "0 \<le> CONTAINER_MAX_OUTPUT_SIZE cfg"
  shows "(int (length (delivered_stdout evs)) > CONTAINER_MAX_OUTPUT_SIZE cfg \<longrightarrow>
            int (length (stdout (drain cfg grp evs))) = CONTAINER_MAX_OUTPUT_SIZE cfg
          \<and> stdout (drain cfg grp evs) = take (nat (CONTAINER_MAX_OUTPUT_SIZE cfg)) (delivered_stdout evs)
          \<and> stdoutTruncated (drain cfg grp evs))
       \<and> (int (length (delivered_stdout evs)) \<le> CONTAINER_MAX_OUTPUT_SIZE cfg \<longrightarrow>
            \<not> stdoutTruncated (drain cfg grp evs)
          \<and> stdout (drain cfg grp evs) = delivered_stdout evs)
       \<and> (int (length (delivered_stderr evs)) > CONTAINER_MAX_OUTPUT_SIZE cfg \<longrightarrow>
            int (length (stderr (drain cfg grp evs))) = CONTAINER_MAX_OUTPUT_SIZE cfg
          \<and> stderr (drain cfg grp evs) = take (nat (CONTAINER_MAX_OUTPUT_SIZE cfg)) (delivered_stderr evs)
          \<and> stderrTruncated (drain cfg grp evs))
       \<and> (int (length (delivered_stderr evs)) \<le> CONTAINER_MAX_OUTPUT_SIZE cfg \<longrightarrow>
            \<not> stderrTruncated (drain cfg grp evs)
          \<and> stderr (drain cfg grp evs) = delivered_stderr evs)"
proof -
  have out: "stdout_inv (CONTAINER_MAX_OUTPUT_SIZE cfg) (drain cfg grp evs) (delivered_stdout evs)"
    using assms by (rule drain_stdout_inv)
  have err: "stderr_inv (CONTAINER_MAX_OUTPUT_SIZE cfg) (drain cfg grp evs) (delivered_stderr evs)"
    using assms by (rule drain_stderr_inv)
  show ?thesis
    using out err assms unfolding stdout_inv_def stderr_inv_def
    by (auto split: if_splits)
qed

theorem collectStream_cap_witness:
  "0 \<le> CONTAINER_MAX_OUTPUT_SIZE small_cap_config
   \<and> stdout (drain small_cap_config example_group
        [StdoutChunk ''abc'', StderrChunk ''xy'', StdoutChunk ''defg'', StdoutChunk ''h'']) = ''abcde''
   \<and> stdoutTruncated (drain small_cap_config example_group
        [StdoutChunk ''abc'', StderrChunk ''xy'', StdoutChunk ''defg'', StdoutChunk ''h''])
   \<and> stderr (drain small_cap_config example_group
        [StdoutChunk ''abc'', StderrChunk ''xy'', StdoutChunk ''defg'', StdoutChunk ''h'']) = ''xy''
   \<and> \<not> stderrTruncated (drain small_cap_config example_group
        [StdoutChunk ''abc'', StderrChunk ''xy'', StdoutChunk ''defg'', StdoutChunk ''h''])"
  using collectStream_cap [of small_cap_config
      "[StdoutChunk ''abc'', StderrChunk ''xy'', StdoutChunk ''defg'', StdoutChunk ''h'']"
      example_group]
  by (simp add: small_cap_config_def example_config_def)

section \<open>Snapshots\<close>

text \<open>
  C6. \<open>writeTasksSnapshot\<close> changes one file, \<open>current_tasks.json\<close> in the IPC
  directory of the folder, and what it writes there is the serialised list
  \<open>filteredTasks\<close>: the whole task list for the privileged tenant, and for any other
  tenant the tasks of its own folder, in their order, all of them and no other.
\<close>

theorem writeTasksSnapshot_filtered:
  "files (writeTasksSnapshot cfg rt fs groupFolder isMain tasks) =
     (files fs)(path_join [path_join [DATA_DIR cfg, ''ipc'', groupFolder], ''current_tasks.json'']
        \<mapsto> JSON_stringify_indent2 rt (JArr (map task_json (filteredTasks groupFolder isMain tasks))))
   \<and> (isMain \<longrightarrow> filteredTasks groupFolder isMain tasks = tasks)
   \<and> (\<not> isMain \<longrightarrow>
        filteredTasks groupFolder isMain tasks = filter (\<lambda>t. task_groupFolder t = groupFolder) tasks
      \<and> (\<forall>t \<in> set (filteredTasks groupFolder isMain tasks). task_groupFolder t = groupFolder)
      \<and> (\<forall>t \<in> set tasks. task_groupFolder t = groupFolder
            \<longrightarrow> t \<in> set (filteredTasks groupFolder isMain tasks)))"
  by (simp add: writeTasksSnapshot_def filteredTasks_def writeFileSync_def mkdirSync_def Let_def)

theorem writeTasksSnapshot_filtered_witness:
  "filteredTasks ''A'' False [example_task ''1'' ''A'', example_task ''2'' ''B'', example_task ''3'' ''A'']
     = [example_task ''1'' ''A'', example_task ''3'' ''A'']
   \<and> example_task ''2'' ''B'' \<notin> set (filteredTasks ''A'' False
        [example_task ''1'' ''A'', example_task ''2'' ''B'', example_task ''3'' ''A''])
   \<and> filteredTasks ''A'' True [example_task ''1'' ''A'', example_task ''2'' ''B'', example_task ''3'' ''A'']
     = [example_task ''1'' ''A'', example_task ''2'' ''B'', example_task ''3'' ''A'']"
  using writeTasksSnapshot_filtered [of example_config "example_runtime (\<lambda>s. Inl ''no'')"
      empty_filesystem "''A''" False
      "[example_task ''1'' ''A'', example_task ''2'' ''B'', example_task ''3'' ''A'']"]
    writeTasksSnapshot_filtered [of example_config "example_runtime (\<lambda>s. Inl ''no'')"
      empty_filesystem "''A''" True
      "[example_task ''1'' ''A'', example_task ''2'' ''B'', example_task ''3'' ''A'']"]
  by (simp add: example_task_def)

text \<open>
  C7. \<open>writeGroupsSnapshot\<close> changes one file, \<open>available_groups.json\<close> in the IPC
  directory of the folder; its \<open>groups\<close> entry is the whole input list for the
  privileged tenant and the empty list for any other tenant, whatever the input list.
\<close>

theorem writeGroupsSnapshot_visible:
  "files (writeGroupsSnapshot cfg rt fs now groupFolder isMain groups registeredJids) =
     (files fs)(path_join [path_join [DATA_DIR cfg, ''ipc'', groupFolder], ''available_groups.json'']
        \<mapsto> JSON_stringify_indent2 rt
             (JObj [(''groups'', JArr (map AvailableGroup_json (visibleGroups isMain groups))),
                    (''lastSync'', JStr now)]))
   \<and> (isMain \<longrightarrow> visibleGroups isMain groups = groups)
   \<and> (\<not> isMain \<longrightarrow> visibleGroups isMain groups = [])"
  by (simp add: writeGroupsSnapshot_def visibleGroups_def writeFileSync_def mkdirSync_def Let_def)

theorem writeGroupsSnapshot_visible_witness:
  "visibleGroups True [example_available ''1@g.us'', example_available ''2@g.us'']
     = [example_available ''1@g.us'', example_available ''2@g.us'']
   \<and> visibleGroups False [example_available ''1@g.us'', example_available ''2@g.us''] = []"
  using writeGroupsSnapshot_visible [of example_config "example_runtime (\<lambda>s. Inl ''no'')"
      empty_filesystem "''2026-01-01T00:00:00.000Z''" "''A''" True
      "[example_available ''1@g.us'', example_available ''2@g.us'']" "{}"]
    writeGroupsSnapshot_visible [of example_config "example_runtime (\<lambda>s. Inl ''no'')"
      empty_filesystem "''2026-01-01T00:00:00.000Z''" "''A''" False
      "[example_available ''1@g.us'', example_available ''2@g.us'']" "{}"]
  by simp

text \<open>
  C10. The set \<open>registeredJids\<close> has no effect on \<open>writeGroupsSnapshot\<close>: with the
  same folder, flag, list and clock reading, two calls leave the same file system,
  whatever the two sets.
\<close>

theorem writeGroupsSnapshot_ignores_registeredJids:
  "writeGroupsSnapshot cfg rt fs now groupFolder isMain groups registeredJids1 =
   writeGroupsSnapshot cfg rt fs now groupFolder isMain groups registeredJids2"
  by (simp add: writeGroupsSnapshot_def)

section \<open>Mounts and the run: auxiliary facts\<close>

lemma files_mkdirSync: "files (mkdirSync fs p) = files fs"
  by (simp add: mkdirSync_def)

lemma files_writeFileSync: "files (writeFileSync fs p c) = (files fs)(p \<mapsto> c)"
  by (simp add: writeFileSync_def)

lemma getHomeDir_cases:
  obtains e where "getHomeDir h = Inl e" | home where "getHomeDir h = Inr home"
  by (cases "getHomeDir h") auto

lemma buildVolumeMounts_Inr:
  assumes "buildVolumeMounts cfg h v fs grp isMain = Inr (ms, fs')"
  shows "ms =
      (if isMain then
         [\<lparr>hostPath = cwd h, containerPath = ''/workspace/project'', readonly = False\<rparr>,
          \<lparr>hostPath = path_join [GROUPS_DIR cfg, folder grp],
           containerPath = ''/workspace/group'', readonly = False\<rparr>]
       else
         [\<lparr>hostPath = path_join [GROUPS_DIR cfg, folder grp],
           containerPath = ''/workspace/group'', readonly = False\<rparr>]
         @ (if existsSync fs (path_join [GROUPS_DIR cfg, ''global''])
            then [\<lparr>hostPath = path_join [GROUPS_DIR cfg, ''global''],
                   containerPath = ''/workspace/global'', readonly = True\<rparr>]
            else []))
      @ [\<lparr>hostPath = path_join [DATA_DIR cfg, ''sessions'', folder grp, ''.claude''],
          containerPath = ''/home/node/.claude'', readonly = False\<rparr>,
         \<lparr>hostPath = path_join [DATA_DIR cfg, ''ipc'', folder grp],
          containerPath = ''/workspace/ipc'', readonly = False\<rparr>,
         \<lparr>hostPath = path_join [DATA_DIR cfg, ''env''],
          containerPath = ''/workspace/env-dir'', readonly = True\<rparr>]
      @ validatedMounts v grp isMain"
  using assms unfolding buildVolumeMounts_def Let_def
  by (auto split: sum.splits if_splits)

lemma buildVolumeMounts_succeeds:
  assumes "getHomeDir h = Inr home" "files fs (path_join [cwd h, ''.env'']) \<noteq> None"
  shows "\<exists>ms fs'. buildVolumeMounts cfg h v fs grp isMain = Inr (ms, fs')"
  using assms unfolding buildVolumeMounts_def Let_def
  by (auto simp: readFileSync_def files_mkdirSync existsSync_def split: sum.splits option.splits)

lemma runContainerAgent_spawned:
  assumes "spawned cfg h rt v spawn fs grp input ex"
  shows "\<exists>mounts fs1 logs0.
      buildVolumeMounts cfg h v (mkdirSync fs (path_join [GROUPS_DIR cfg, folder grp])) grp
        (input_isMain input) = Inr (mounts, fs1)
    \<and> runContainerAgent cfg h rt v spawn startTime fs grp input =
        Inr (finish cfg h rt grp input mounts (buildContainerArgs cfg mounts)
               (path_join [GROUPS_DIR cfg, folder grp, ''logs'']) startTime
               (mkdirSync fs1 (path_join [GROUPS_DIR cfg, folder grp, ''logs''])) logs0
               (drain cfg grp (events ex)) ex)"
  using assms unfolding spawned_def runContainerAgent_def Let_def
  by (auto split: sum.splits prod.splits)

lemma handle_event_timedOut:
  "timedOut (handle_event cfg grp st ev) = (timedOut st \<or> ev = TimerFired)"
  "killed (handle_event cfg grp st ev) = (killed st \<or> ev = TimerFired)"
  by (cases ev; simp add: handle_event_def collect_stdout_def collect_stderr_def on_timeout_def
        log_call_def Let_def log_stderr_lines_fields)+

lemma foldl_handle_event_timedOut:
  "timedOut (foldl (handle_event cfg grp) st evs) = (timedOut st \<or> TimerFired \<in> set evs)"
  "killed (foldl (handle_event cfg grp) st evs) = (killed st \<or> TimerFired \<in> set evs)"
  by (induction evs arbitrary: st; auto simp: handle_event_timedOut)+

lemma drain_timedOut:
  "timedOut (drain cfg grp evs) = (TimerFired \<in> set evs)"
  "killed (drain cfg grp evs) = (TimerFired \<in> set evs)"
  by (simp_all add: drain_def foldl_handle_event_timedOut initial_capture_def)

lemma finish_timedOut:
  assumes "timedOut st"
  shows "finish cfg h rt grp input mounts args logsDir startTime fs logs0 st ex =
     \<lparr>returned = error_output (''Container timed out after '' @ show_int (timeoutMs cfg grp) @ ''ms''),
      fs_after = fs, run_logs = logs0 @ logs st, process_killed = killed st, parse_calls = []\<rparr>"
  using assms by (simp add: finish_def)

lemma finish_files:
  assumes "\<not> timedOut st"
  shows "\<exists>content. files (fs_after (finish cfg h rt grp input mounts args logsDir startTime fs logs0 st ex))
      = (files fs)(logFile_of logsDir ex \<mapsto> content)"
  using assms unfolding finish_def Let_def logFile_of_def
  by (auto simp: files_writeFileSync split: sum.splits prod.splits)

lemma finish_parse_error:
  assumes "\<not> timedOut st" "exit_code ex = 0" "JSON_parse rt (extract_candidate (stdout st)) = Inl msg"
  shows "returned (finish cfg h rt grp input mounts args logsDir startTime fs logs0 st ex) =
           error_output (''Failed to parse container output: '' @ msg)"
    and "last (run_logs (finish cfg h rt grp input mounts args logsDir startTime fs logs0 st ex)) =
           (Error, [(''group'', JStr (name grp)), (''stdout'', JStr (slice_from (stdout st) (- 500))),
                    (''error'', JStr msg)], ''Failed to parse container output'')"
    and "parse_calls (finish cfg h rt grp input mounts args logsDir startTime fs logs0 st ex) =
           [extract_candidate (stdout st)]"
  using assms unfolding finish_def Let_def try_parse_def
  by simp_all

lemma finish_parse_null:
  assumes "\<not> timedOut st" "exit_code ex = 0" "JSON_parse rt (extract_candidate (stdout st)) = Inr JNull"
  shows "returned (finish cfg h rt grp input mounts args logsDir startTime fs logs0 st ex) =
           error_output (''Failed to parse container output: '' @ null_property_error rt)"
  using assms unfolding finish_def Let_def try_parse_def
  by simp

lemma finish_parse_value:
  assumes "\<not> timedOut st" "exit_code ex = 0" "JSON_parse rt (extract_candidate (stdout st)) = Inr v"
    "v \<noteq> JNull"
  shows "returned (finish cfg h rt grp input mounts args logsDir startTime fs logs0 st ex) = v"
    and "parse_calls (finish cfg h rt grp input mounts args logsDir startTime fs logs0 st ex) =
           [extract_candidate (stdout st)]"
  using assms unfolding finish_def Let_def try_parse_def
  by simp_all

lemma finish_nonzero:
  assumes "\<not> timedOut st" "exit_code ex \<noteq> 0"
  shows "returned (finish cfg h rt grp input mounts args logsDir startTime fs logs0 st ex) =
           error_output (''Container exited with code '' @ show_int (exit_code ex) @ '': ''
                          @ slice_from (stderr st) (- 200))"
    and "parse_calls (finish cfg h rt grp input mounts args logsDir startTime fs logs0 st ex) = []"
  using assms unfolding finish_def Let_def
  by simp_all

section \<open>The timeout\<close>

lemma example_spawned:
  "spawned example_config example_host rt v (example_spawn ex) example_filesystem grp input ex"
proof -
  have home: "getHomeDir example_host = Inr ''/home/op''"
    by (simp add: getHomeDir_def example_host_def or_string_def)
  have env: "files (mkdirSync example_filesystem (path_join [GROUPS_DIR example_config, folder grp]))
               (path_join [cwd example_host, ''.env'']) \<noteq> None"
    by (simp add: files_mkdirSync example_filesystem_def example_host_def path_join_def normalize_def
          normalizeString_def normalize_step_def isAbsolute_def)
  from buildVolumeMounts_succeeds [OF home env, of example_config v grp "input_isMain input"]
  obtain ms fs' where
    "buildVolumeMounts example_config example_host v
       (mkdirSync example_filesystem (path_join [GROUPS_DIR example_config, folder grp])) grp
       (input_isMain input) = Inr (ms, fs')"
    by blast
  then show ?thesis
    by (simp add: spawned_def example_spawn_def)
qed

lemma run_timed_out:
  assumes "spawned cfg h rt v spawn fs grp input ex" "TimerFired \<in> set (events ex)"
  shows "\<exists>r mounts fs1.
       buildVolumeMounts cfg h v (mkdirSync fs (path_join [GROUPS_DIR cfg, folder grp])) grp
         (input_isMain input) = Inr (mounts, fs1)
     \<and> runContainerAgent cfg h rt v spawn startTime fs grp input = Inr r
     \<and> returned r = error_output (''Container timed out after '' @ show_int (timeoutMs cfg grp) @ ''ms'')
     \<and> process_killed r \<and> parse_calls r = []
     \<and> files (fs_after r) = files fs1"
proof -
  from runContainerAgent_spawned [OF assms(1), of startTime] obtain mounts fs1 logs0 where
    b: "buildVolumeMounts cfg h v (mkdirSync fs (path_join [GROUPS_DIR cfg, folder grp])) grp
         (input_isMain input) = Inr (mounts, fs1)"
    and r: "runContainerAgent cfg h rt v spawn startTime fs grp input =
        Inr (finish cfg h rt grp input mounts (buildContainerArgs cfg mounts)
               (path_join [GROUPS_DIR cfg, folder grp, ''logs'']) startTime
               (mkdirSync fs1 (path_join [GROUPS_DIR cfg, folder grp, ''logs''])) logs0
               (drain cfg grp (events ex)) ex)"
    by blast
  have t: "timedOut (drain cfg grp (events ex))" "killed (drain cfg grp (events ex))"
    using assms(2) by (simp_all add: drain_timedOut)
  show ?thesis
    using b r t by (simp add: finish_timedOut files_mkdirSync)
qed

text \<open>
  C3, as amended. When the timer fires during an invocation whose process was spawned,
  the invocation returns the error result whose message is
  \<open>Container timed out after <timeoutMs>ms\<close>, \<open>container.kill()\<close> has been called
  and nothing was handed to \<open>JSON.parse\<close>. The value \<open>timeoutMs\<close> is the tenant's
  override when there is one and it is not zero, and the system default otherwise.
\<close>

theorem timeout_result:
  assumes "spawned cfg h rt v spawn fs grp input ex" and "TimerFired \<in> set (events ex)"
  shows "(\<exists>r. runContainerAgent cfg h rt v spawn startTime fs grp input = Inr r
           \<and> returned r = error_output (''Container timed out after '' @ show_int (timeoutMs cfg grp) @ ''ms'')
           \<and> process_killed r \<and> parse_calls r = [])
       \<and> timeoutMs cfg grp =
           (case timeout_override grp of
              None \<Rightarrow> CONTAINER_TIMEOUT cfg
            | Some t \<Rightarrow> if t = 0 then CONTAINER_TIMEOUT cfg else t)"
proof -
  from run_timed_out [OF assms, of startTime] have
    "\<exists>r. runContainerAgent cfg h rt v spawn startTime fs grp input = Inr r
           \<and> returned r = error_output (''Container timed out after '' @ show_int (timeoutMs cfg grp) @ ''ms'')
           \<and> process_killed r \<and> parse_calls r = []"
    by blast
  moreover have "timeoutMs cfg grp =
           (case timeout_override grp of
              None \<Rightarrow> CONTAINER_TIMEOUT cfg
            | Some t \<Rightarrow> if t = 0 then CONTAINER_TIMEOUT cfg else t)"
    by (simp add: timeoutMs_def timeout_override_def split: option.splits)
  ultimately show ?thesis by blast
qed

lemma show_int_5000: "show_int 5000 = ''5000''"
  by (simp add: show_int_def digit_char_def)

lemma show_int_300000: "show_int 300000 = ''300000''"
  by (simp add: show_int_def digit_char_def)

theorem timeout_result_witness:
  "spawned example_config example_host (example_runtime example_parse) accept_all
     (example_spawn (example_execution [StdoutChunk ''{}'', TimerFired] 137))
     example_filesystem (group_with_timeout 5000) example_input
     (example_execution [StdoutChunk ''{}'', TimerFired] 137)
   \<and> TimerFired \<in> set (events (example_execution [StdoutChunk ''{}'', TimerFired] 137))
   \<and> (\<exists>r. runContainerAgent example_config example_host (example_runtime example_parse) accept_all
         (example_spawn (example_execution [StdoutChunk ''{}'', TimerFired] 137)) 1000
         example_filesystem (group_with_timeout 5000) example_input = Inr r
       \<and> returned r = error_output ''Container timed out after 5000ms''
       \<and> process_killed r \<and> parse_calls r = [])"
proof -
  have m: "TimerFired \<in> set (events (example_execution [StdoutChunk ''{}'', TimerFired] 137))"
    by (simp add: example_execution_def)
  have t: "timeoutMs example_config (group_with_timeout 5000) = 5000"
    by (simp add: timeoutMs_def group_with_timeout_def)
  show ?thesis
    using timeout_result [OF example_spawned m, where rt = "example_runtime example_parse"
        and v = accept_all and grp = "group_with_timeout 5000" and input = example_input
        and startTime = 1000] example_spawned m
    by (simp add: t show_int_5000)
qed

text \<open>
  C3 as stated fails for a tenant whose override is present and zero: the message names
  the system default, not the override.
\<close>

theorem timeout_override_zero_counterexample:
  "timeout_override (group_with_timeout 0) = Some 0
   \<and> spec_configured_timeout example_config (group_with_timeout 0) = 0
   \<and> (\<exists>r. runContainerAgent example_config example_host (example_runtime example_parse) accept_all
         (example_spawn (example_execution [TimerFired] 137)) 1000
         example_filesystem (group_with_timeout 0) example_input = Inr r
       \<and> returned r = error_output ''Container timed out after 300000ms''
       \<and> returned r \<noteq> error_output (''Container timed out after ''
            @ show_int (spec_configured_timeout example_config (group_with_timeout 0)) @ ''ms''))"
proof -
  have m: "TimerFired \<in> set (events (example_execution [TimerFired] 137))"
    by (simp add: example_execution_def)
  have t: "timeoutMs example_config (group_with_timeout 0) = 300000"
    by (simp add: timeoutMs_def group_with_timeout_def example_config_def)
  have o: "timeout_override (group_with_timeout 0) = Some 0"
    by (simp add: timeout_override_def group_with_timeout_def)
  have s: "spec_configured_timeout example_config (group_with_timeout 0) = 0"
    by (simp add: spec_configured_timeout_def o)
  have z: "show_int 0 = ''0''" by (simp add: show_int_def digit_char_def)
  show ?thesis
    using run_timed_out [OF example_spawned m, where rt = "example_runtime example_parse"
        and v = accept_all and grp = "group_with_timeout 0" and input = example_input
        and startTime = 1000]
    by (auto simp: t o s z show_int_300000 error_output_def)
qed

section \<open>Parse failure\<close>

lemma run_completed:
  assumes "spawned cfg h rt v spawn fs grp input ex" "TimerFired \<notin> set (events ex)"
  shows "\<exists>mounts fs1 logs0.
       buildVolumeMounts cfg h v (mkdirSync fs (path_join [GROUPS_DIR cfg, folder grp])) grp
         (input_isMain input) = Inr (mounts, fs1)
     \<and> \<not> timedOut (drain cfg grp (events ex))
     \<and> runContainerAgent cfg h rt v spawn startTime fs grp input =
        Inr (finish cfg h rt grp input mounts (buildContainerArgs cfg mounts)
               (path_join [GROUPS_DIR cfg, folder grp, ''logs'']) startTime
               (mkdirSync fs1 (path_join [GROUPS_DIR cfg, folder grp, ''logs''])) logs0
               (drain cfg grp (events ex)) ex)"
  using runContainerAgent_spawned [OF assms(1), of startTime] assms(2)
  by (simp add: drain_timedOut)

lemma length_slice_from_neg: "0 < n \<Longrightarrow> length (slice_from s (- int n)) \<le> n"
  by (auto simp: slice_from_def slice_index_def)

lemma suffix_slice_from: "suffix (slice_from s a) s"
  by (simp add: slice_from_def suffix_drop)

text \<open>
  When the process was spawned, the timer did not fire, the exit code is 0 and
  \<open>JSON.parse\<close> throws on the candidate, the invocation returns (no exception leaves
  it) the error result whose message is \<open>Failed to parse container output: \<close> followed
  by the message of the exception. The tail of the raw output, its last 500 code units
  at most, goes into the payload of the error entry of the logger, the last entry
  logged; it is not part of what is returned.
\<close>

lemma parse_failure_result:
  assumes "spawned cfg h rt v spawn fs grp input ex"
    and "TimerFired \<notin> set (events ex)"
    and "exit_code ex = 0"
    and "JSON_parse rt (extract_candidate (stdout (drain cfg grp (events ex)))) = Inl msg"
  shows "\<exists>r. runContainerAgent cfg h rt v spawn startTime fs grp input = Inr r
     \<and> returned r = error_output (''Failed to parse container output: '' @ msg)
     \<and> ''Failed to parse container output: '' @ msg \<noteq> []
     \<and> last (run_logs r) =
         (Error,
          [(''group'', JStr (name grp)),
           (''stdout'', JStr (slice_from (stdout (drain cfg grp (events ex))) (- 500))),
           (''error'', JStr msg)],
          ''Failed to parse container output'')
     \<and> length (slice_from (stdout (drain cfg grp (events ex))) (- 500)) \<le> 500
     \<and> suffix (slice_from (stdout (drain cfg grp (events ex))) (- 500))
          (stdout (drain cfg grp (events ex)))"
proof -
  from run_completed [OF assms(1,2), of startTime] obtain mounts fs1 logs0 where
    nt: "\<not> timedOut (drain cfg grp (events ex))"
    and r: "runContainerAgent cfg h rt v spawn startTime fs grp input =
        Inr (finish cfg h rt grp input mounts (buildContainerArgs cfg mounts)
               (path_join [GROUPS_DIR cfg, folder grp, ''logs'']) startTime
               (mkdirSync fs1 (path_join [GROUPS_DIR cfg, folder grp, ''logs''])) logs0
               (drain cfg grp (events ex)) ex)"
    by blast
  have len: "length (slice_from (stdout (drain cfg grp (events ex))) (- 500)) \<le> 500"
    using length_slice_from_neg [where n = 500 and s = "stdout (drain cfg grp (events ex))"] by simp
  note fin = finish_parse_error [OF nt assms(3,4), where cfg = cfg and h = h and grp = grp
      and input = input and mounts = mounts and args = "buildContainerArgs cfg mounts"
      and logsDir = "path_join [GROUPS_DIR cfg, folder grp, ''logs'']" and startTime = startTime
      and fs = "mkdirSync fs1 (path_join [GROUPS_DIR cfg, folder grp, ''logs''])" and ?logs0.0 = logs0]
  show ?thesis
    unfolding r using len fin(1) fin(2)
    by (simp add: suffix_slice_from)
qed

lemma run_exit0:
  assumes "spawned cfg h rt v spawn fs grp input ex" "TimerFired \<notin> set (events ex)"
    "exit_code ex = 0"
  shows "\<exists>r. runContainerAgent cfg h rt v spawn startTime fs grp input = Inr r
     \<and> parse_calls r = [extract_candidate (stdout (drain cfg grp (events ex)))]
     \<and> (\<forall>msg. JSON_parse rt (extract_candidate (stdout (drain cfg grp (events ex)))) = Inl msg
            \<longrightarrow> returned r = error_output (''Failed to parse container output: '' @ msg))
     \<and> (JSON_parse rt (extract_candidate (stdout (drain cfg grp (events ex)))) = Inr JNull
            \<longrightarrow> returned r = error_output (''Failed to parse container output: '' @ null_property_error rt))
     \<and> (\<forall>val. JSON_parse rt (extract_candidate (stdout (drain cfg grp (events ex)))) = Inr val
              \<and> val \<noteq> JNull \<longrightarrow> returned r = val)"
proof -
  from run_completed [OF assms(1,2), of startTime] obtain mounts fs1 logs0 where
    nt: "\<not> timedOut (drain cfg grp (events ex))"
    and r: "runContainerAgent cfg h rt v spawn startTime fs grp input =
        Inr (finish cfg h rt grp input mounts (buildContainerArgs cfg mounts)
               (path_join [GROUPS_DIR cfg, folder grp, ''logs'']) startTime
               (mkdirSync fs1 (path_join [GROUPS_DIR cfg, folder grp, ''logs''])) logs0
               (drain cfg grp (events ex)) ex)"
    by blast
  show ?thesis
    unfolding r using nt assms(3)
    by (cases "JSON_parse rt (extract_candidate (stdout (drain cfg grp (events ex))))")
       (auto simp: finish_def Let_def try_parse_def)
qed

lemma drain_single_stdout:
  "int (length c) \<le> CONTAINER_MAX_OUTPUT_SIZE cfg \<Longrightarrow> stdout (drain cfg grp [StdoutChunk c]) = c"
  by (simp add: drain_def handle_event_def collect_stdout_def initial_capture_def)

lemma extract_noisy: "extract_candidate example_noisy_output = ''{bad''"
  by (simp add: extract_candidate_def example_noisy_output_def OUTPUT_START_MARKER_def
        OUTPUT_END_MARKER_def newline_def slice_def slice_index_def trim_def js_whitespace_def)

lemma length_noisy: "length example_noisy_output = 65"
  by (simp add: example_noisy_output_def OUTPUT_START_MARKER_def OUTPUT_END_MARKER_def)

lemma stdout_noisy:
  "stdout (drain example_config grp [StdoutChunk example_noisy_output]) = example_noisy_output"
  by (rule drain_single_stdout) (simp add: length_noisy example_config_def)

lemma parse_bad: "JSON_parse (example_runtime example_parse) ''{bad'' = Inl ''Unexpected token''"
  by (simp add: example_runtime_def example_parse_def example_success_line_def)

lemma parse_failure_result_example:
  "spawned example_config example_host (example_runtime example_parse) accept_all
     (example_spawn (example_execution [StdoutChunk example_noisy_output] 0))
     example_filesystem example_group example_input
     (example_execution [StdoutChunk example_noisy_output] 0)
   \<and> TimerFired \<notin> set (events (example_execution [StdoutChunk example_noisy_output] 0))
   \<and> exit_code (example_execution [StdoutChunk example_noisy_output] 0) = 0
   \<and> JSON_parse (example_runtime example_parse)
        (extract_candidate (stdout (drain example_config example_group
           (events (example_execution [StdoutChunk example_noisy_output] 0))))) = Inl ''Unexpected token''
   \<and> (\<exists>r. runContainerAgent example_config example_host (example_runtime example_parse) accept_all
         (example_spawn (example_execution [StdoutChunk example_noisy_output] 0)) 1000
         example_filesystem example_group example_input = Inr r
       \<and> returned r = error_output ''Failed to parse container output: Unexpected token'')"
proof -
  have e: "events (example_execution [StdoutChunk example_noisy_output] 0) = [StdoutChunk example_noisy_output]"
    "exit_code (example_execution [StdoutChunk example_noisy_output] 0) = 0"
    by (simp_all add: example_execution_def)
  have t: "TimerFired \<notin> set (events (example_execution [StdoutChunk example_noisy_output] 0))"
    by (simp add: e)
  have p: "JSON_parse (example_runtime example_parse)
        (extract_candidate (stdout (drain example_config example_group
           (events (example_execution [StdoutChunk example_noisy_output] 0))))) = Inl ''Unexpected token''"
    by (simp add: e stdout_noisy extract_noisy parse_bad)
  show ?thesis
    using parse_failure_result [OF example_spawned t e(2) p, where startTime = 1000
        and v = accept_all and input = example_input] example_spawned t e(2) p
    by auto
qed

text \<open>
  The returned message has no tail of the raw output in it. Here the raw output ends
  with \<open>@\<close>, a character that the returned message, the only text in the result,
  does not contain.
\<close>

lemma parse_failure_message_without_tail:
  "last example_noisy_output = CHR ''@''
   \<and> CHR ''@'' \<notin> set ''Failed to parse container output: Unexpected token''
   \<and> (\<exists>r. runContainerAgent example_config example_host (example_runtime example_parse) accept_all
         (example_spawn (example_execution [StdoutChunk example_noisy_output] 0)) 1000
         example_filesystem example_group example_input = Inr r
       \<and> returned r = error_output ''Failed to parse container output: Unexpected token'')"
proof -
  have e: "events (example_execution [StdoutChunk example_noisy_output] 0) = [StdoutChunk example_noisy_output]"
    "exit_code (example_execution [StdoutChunk example_noisy_output] 0) = 0"
    by (simp_all add: example_execution_def)
  have t: "TimerFired \<notin> set (events (example_execution [StdoutChunk example_noisy_output] 0))"
    by (simp add: e)
  have p: "JSON_parse (example_runtime example_parse)
        (extract_candidate (stdout (drain example_config example_group
           (events (example_execution [StdoutChunk example_noisy_output] 0))))) = Inl ''Unexpected token''"
    by (simp add: e stdout_noisy extract_noisy parse_bad)
  have l: "last example_noisy_output = CHR ''@''"
    by (simp add: example_noisy_output_def)
  from run_exit0 [OF example_spawned t e(2), where startTime = 1000 and v = accept_all
      and input = example_input and rt = "example_runtime example_parse" and grp = example_group]
  show ?thesis using p l by auto
qed

lemma extract_five: "extract_candidate ''5'' = ''5''"
  by (simp add: extract_candidate_def OUTPUT_START_MARKER_def OUTPUT_END_MARKER_def newline_def
        trim_def js_whitespace_def)

lemma stdout_five: "stdout (drain example_config grp [StdoutChunk ''5'']) = ''5''"
  by (rule drain_single_stdout) (simp add: example_config_def)

lemma parse_five: "JSON_parse (example_runtime example_parse) ''5'' = Inr (JNum 5)"
  by (simp add: example_runtime_def example_parse_def example_success_line_def)

text \<open>
  C5 fails on the code, in two ways. A candidate that is JSON but no \<open>ContainerOutput\<close>
  is not reported as a parse failure: for the output \<open>5\<close> the invocation returns the
  number 5 itself, with no status and no message. And when \<open>JSON.parse\<close> does throw, as
  on the candidate of the noisy output, the returned message names the failure and
  holds no tail of the raw output, which ends with \<open>@\<close> here.
\<close>

theorem parse_failure_not_reported:
  "(\<exists>r. runContainerAgent example_config example_host (example_runtime example_parse) accept_all
         (example_spawn (example_execution [StdoutChunk ''5''] 0)) 1000
         example_filesystem example_group example_input = Inr r
       \<and> parse_calls r = [''5'']
       \<and> returned r = JNum 5)
   \<and> (\<exists>r. runContainerAgent example_config example_host (example_runtime example_parse) accept_all
         (example_spawn (example_execution [StdoutChunk example_noisy_output] 0)) 1000
         example_filesystem example_group example_input = Inr r
       \<and> returned r = error_output ''Failed to parse container output: Unexpected token'')
   \<and> last example_noisy_output = CHR ''@''
   \<and> CHR ''@'' \<notin> set ''Failed to parse container output: Unexpected token''"
proof -
  have e: "events (example_execution [StdoutChunk ''5''] 0) = [StdoutChunk ''5'']"
    "exit_code (example_execution [StdoutChunk ''5''] 0) = 0"
    by (simp_all add: example_execution_def)
  have t: "TimerFired \<notin> set (events (example_execution [StdoutChunk ''5''] 0))"
    by (simp add: e)
  from run_exit0 [OF example_spawned t e(2), where startTime = 1000 and v = accept_all
      and input = example_input and rt = "example_runtime example_parse" and grp = example_group]
  have five: "\<exists>r. runContainerAgent example_config example_host (example_runtime example_parse) accept_all
         (example_spawn (example_execution [StdoutChunk ''5''] 0)) 1000
         example_filesystem example_group example_input = Inr r
       \<and> parse_calls r = [''5'']
       \<and> returned r = JNum 5"
    by (auto simp: e stdout_five extract_five parse_five)
  from five parse_failure_message_without_tail show ?thesis
    by blast
qed

section \<open>The log of a run and the mounts\<close>

lemma buildVolumeMounts_files:
  assumes "buildVolumeMounts cfg h v fs grp isMain = Inr (ms, fs')"
  shows "\<exists>content. files fs' =
           (files fs)(path_join [path_join [DATA_DIR cfg, ''env''], ''env''] \<mapsto> content)"
  using assms unfolding buildVolumeMounts_def Let_def
  by (auto simp: files_mkdirSync files_writeFileSync split: sum.splits if_splits)

lemma buildVolumeMounts_validator_irrelevant:
  assumes "buildVolumeMounts cfg h v fs grp isMain = Inr (ms, fs')"
  shows "\<exists>ms'. buildVolumeMounts cfg h v' fs grp isMain = Inr (ms', fs')"
  using assms unfolding buildVolumeMounts_def Let_def
  by (auto split: sum.splits if_splits)

text \<open>
  C8 fails on the timeout branch. An invocation whose process was spawned and whose
  timer fires returns the timeout error and leaves no log file: the files that exist
  afterwards are the \<open>.env\<close> that was there and the environment export written by
  \<open>buildVolumeMounts\<close>, with nothing under the log directory of the tenant.
\<close>

theorem timeout_leaves_no_run_log:
  "\<exists>r. runContainerAgent example_config example_host (example_runtime example_parse) accept_all
         (example_spawn (example_execution [StdoutChunk ''{}'', TimerFired] 137)) 1000
         example_filesystem example_group example_input = Inr r
     \<and> returned r = error_output ''Container timed out after 300000ms''
     \<and> dom (files (fs_after r)) = {''/srv/nanoclaw/.env'', ''/srv/data/env/env''}"
proof -
  have m: "TimerFired \<in> set (events (example_execution [StdoutChunk ''{}'', TimerFired] 137))"
    by (simp add: example_execution_def)
  have t: "timeoutMs example_config example_group = 300000"
    by (simp add: timeoutMs_def example_group_def example_config_def)
  have p: "path_join [path_join [DATA_DIR example_config, ''env''], ''env''] = ''/srv/data/env/env''"
    by (simp add: example_config_def path_join_def normalize_def normalizeString_def
          normalize_step_def isAbsolute_def)
  from run_timed_out [OF example_spawned m, where rt = "example_runtime example_parse"
        and v = accept_all and grp = example_group and input = example_input
        and startTime = 1000]
  obtain r mounts fs1 where
    b: "buildVolumeMounts example_config example_host accept_all
          (mkdirSync example_filesystem (path_join [GROUPS_DIR example_config, folder example_group]))
          example_group (input_isMain example_input) = Inr (mounts, fs1)"
    and r: "runContainerAgent example_config example_host (example_runtime example_parse) accept_all
         (example_spawn (example_execution [StdoutChunk ''{}'', TimerFired] 137)) 1000
         example_filesystem example_group example_input = Inr r"
    and o: "returned r = error_output (''Container timed out after ''
              @ show_int (timeoutMs example_config example_group) @ ''ms'')"
    and f: "files (fs_after r) = files fs1"
    by blast
  from buildVolumeMounts_files [OF b] obtain content where
    "files fs1 = (files example_filesystem)(''/srv/data/env/env'' \<mapsto> content)"
    by (auto simp: p files_mkdirSync)
  then have "dom (files (fs_after r)) = {''/srv/nanoclaw/.env'', ''/srv/data/env/env''}"
    using f by (auto simp: example_filesystem_def)
  then show ?thesis
    using r o by (simp add: t show_int_300000)
qed

text \<open>On the other branches the run writes exactly one file, the log of the run.\<close>

lemma run_completed_files:
  assumes "spawned cfg h rt v spawn fs grp input ex" "TimerFired \<notin> set (events ex)"
  shows "\<exists>r mounts fs1 content.
       buildVolumeMounts cfg h v (mkdirSync fs (path_join [GROUPS_DIR cfg, folder grp])) grp
         (input_isMain input) = Inr (mounts, fs1)
     \<and> runContainerAgent cfg h rt v spawn startTime fs grp input = Inr r
     \<and> files (fs_after r) =
         (files fs1)(logFile_of (path_join [GROUPS_DIR cfg, folder grp, ''logs'']) ex \<mapsto> content)"
proof -
  from run_completed [OF assms, of startTime] obtain mounts fs1 logs0 where
    b: "buildVolumeMounts cfg h v (mkdirSync fs (path_join [GROUPS_DIR cfg, folder grp])) grp
         (input_isMain input) = Inr (mounts, fs1)"
    and nt: "\<not> timedOut (drain cfg grp (events ex))"
    and r: "runContainerAgent cfg h rt v spawn startTime fs grp input =
        Inr (finish cfg h rt grp input mounts (buildContainerArgs cfg mounts)
               (path_join [GROUPS_DIR cfg, folder grp, ''logs'']) startTime
               (mkdirSync fs1 (path_join [GROUPS_DIR cfg, folder grp, ''logs''])) logs0
               (drain cfg grp (events ex)) ex)"
    by blast
  from finish_files [OF nt, where cfg = cfg and h = h and rt = rt and grp = grp
      and input = input and mounts = mounts and args = "buildContainerArgs cfg mounts"
      and logsDir = "path_join [GROUPS_DIR cfg, folder grp, ''logs'']" and startTime = startTime
      and fs = "mkdirSync fs1 (path_join [GROUPS_DIR cfg, folder grp, ''logs''])"
      and ?logs0.0 = logs0 and ex = ex]
  obtain content where
    "files (fs_after (finish cfg h rt grp input mounts (buildContainerArgs cfg mounts)
               (path_join [GROUPS_DIR cfg, folder grp, ''logs'']) startTime
               (mkdirSync fs1 (path_join [GROUPS_DIR cfg, folder grp, ''logs''])) logs0
               (drain cfg grp (events ex)) ex))
      = (files fs1)(logFile_of (path_join [GROUPS_DIR cfg, folder grp, ''logs'']) ex \<mapsto> content)"
    by (auto simp: files_mkdirSync)
  with b r show ?thesis
    by auto
qed

lemma nonzero_exit_leaves_run_log:
  "\<exists>r. runContainerAgent example_config example_host (example_runtime example_parse) accept_all
         (example_spawn (example_execution [StderrChunk ''boom''] 1)) 1000
         example_filesystem example_group example_input = Inr r
     \<and> dom (files (fs_after r)) =
         {''/srv/nanoclaw/.env'', ''/srv/data/env/env'',
          ''/srv/groups/family/logs/container-2026-01-01T09-00-01-500Z.log''}"
proof -
  have m: "TimerFired \<notin> set (events (example_execution [StderrChunk ''boom''] 1))"
    by (simp add: example_execution_def)
  have p: "path_join [path_join [DATA_DIR example_config, ''env''], ''env''] = ''/srv/data/env/env''"
    by (simp add: example_config_def path_join_def normalize_def normalizeString_def
          normalize_step_def isAbsolute_def)
  have l: "logFile_of (path_join [GROUPS_DIR example_config, folder example_group, ''logs''])
             (example_execution [StderrChunk ''boom''] 1)
           = ''/srv/groups/family/logs/container-2026-01-01T09-00-01-500Z.log''"
    by (simp add: logFile_of_def example_config_def example_group_def example_execution_def
          path_join_def normalize_def normalizeString_def normalize_step_def isAbsolute_def)
  from run_completed_files [OF example_spawned m, where rt = "example_runtime example_parse"
        and v = accept_all and grp = example_group and input = example_input
        and startTime = 1000]
  obtain r mounts fs1 content where
    b: "buildVolumeMounts example_config example_host accept_all
          (mkdirSync example_filesystem (path_join [GROUPS_DIR example_config, folder example_group]))
          example_group (input_isMain example_input) = Inr (mounts, fs1)"
    and r: "runContainerAgent example_config example_host (example_runtime example_parse) accept_all
         (example_spawn (example_execution [StderrChunk ''boom''] 1)) 1000
         example_filesystem example_group example_input = Inr r"
    and f: "files (fs_after r) =
         (files fs1)(''/srv/groups/family/logs/container-2026-01-01T09-00-01-500Z.log'' \<mapsto> content)"
    unfolding l by blast
  from buildVolumeMounts_files [OF b] obtain content' where
    "files fs1 = (files example_filesystem)(''/srv/data/env/env'' \<mapsto> content')"
    by (auto simp: p files_mkdirSync)
  then have "dom (files (fs_after r)) =
         {''/srv/nanoclaw/.env'', ''/srv/data/env/env'',
          ''/srv/groups/family/logs/container-2026-01-01T09-00-01-500Z.log''}"
    using f by (auto simp: example_filesystem_def)
  then show ?thesis
    using r by simp
qed

text \<open>
  C9, as amended. The mounts that \<open>buildVolumeMounts\<close> returns are its built-in
  mounts, whose sandbox paths are pairwise distinct and among six fixed ones, followed
  by the mounts that the validator accepted, unchanged. The outcome does not depend on
  what the validator returns: with any other validator the call succeeds as well, with
  the same built-in mounts. Every returned mount becomes launch arguments. No sandbox
  path is compared with another one anywhere.
\<close>

theorem mounts_without_collision_check:
  assumes "buildVolumeMounts cfg h v fs grp isMain = Inr (ms, fs')"
  shows "\<exists>builtin.
       ms = builtin @ validatedMounts v grp isMain
     \<and> distinct (map containerPath builtin)
     \<and> set (map containerPath builtin) \<subseteq> builtin_containerPaths
     \<and> (\<forall>v'. buildVolumeMounts cfg h v' fs grp isMain
                = Inr (builtin @ validatedMounts v' grp isMain, fs'))
     \<and> buildContainerArgs cfg ms =
         [''run'', ''-i'', ''--rm''] @ concat (map mount_args builtin)
         @ concat (map mount_args (validatedMounts v grp isMain)) @ [CONTAINER_IMAGE cfg]"
proof -
  let ?builtin = "(if isMain then
         [\<lparr>hostPath = cwd h, containerPath = ''/workspace/project'', readonly = False\<rparr>,
          \<lparr>hostPath = path_join [GROUPS_DIR cfg, folder grp],
           containerPath = ''/workspace/group'', readonly = False\<rparr>]
       else
         [\<lparr>hostPath = path_join [GROUPS_DIR cfg, folder grp],
           containerPath = ''/workspace/group'', readonly = False\<rparr>]
         @ (if existsSync fs (path_join [GROUPS_DIR cfg, ''global''])
            then [\<lparr>hostPath = path_join [GROUPS_DIR cfg, ''global''],
                   containerPath = ''/workspace/global'', readonly = True\<rparr>]
            else []))
      @ [\<lparr>hostPath = path_join [DATA_DIR cfg, ''sessions'', folder grp, ''.claude''],
          containerPath = ''/home/node/.claude'', readonly = False\<rparr>,
         \<lparr>hostPath = path_join [DATA_DIR cfg, ''ipc'', folder grp],
          containerPath = ''/workspace/ipc'', readonly = False\<rparr>,
         \<lparr>hostPath = path_join [DATA_DIR cfg, ''env''],
          containerPath = ''/workspace/env-dir'', readonly = True\<rparr>]"
  have ms: "ms = ?builtin @ validatedMounts v grp isMain"
    using buildVolumeMounts_Inr [OF assms] by simp
  have d: "distinct (map containerPath ?builtin)"
    by simp
  have s: "set (map containerPath ?builtin) \<subseteq> builtin_containerPaths"
    by (auto simp: builtin_containerPaths_def)
  have o: "buildVolumeMounts cfg h v' fs grp isMain
             = Inr (?builtin @ validatedMounts v' grp isMain, fs')" for v'
  proof -
    from buildVolumeMounts_validator_irrelevant [OF assms, of v'] obtain ms' where
      b': "buildVolumeMounts cfg h v' fs grp isMain = Inr (ms', fs')" by blast
    from buildVolumeMounts_Inr [OF b'] b' show ?thesis by simp
  qed
  have a: "buildContainerArgs cfg ms =
         [''run'', ''-i'', ''--rm''] @ concat (map mount_args ?builtin)
         @ concat (map mount_args (validatedMounts v grp isMain)) @ [CONTAINER_IMAGE cfg]"
    unfolding ms by (simp add: buildContainerArgs_def)
  show ?thesis
    using ms d s o a by blast
qed

lemma validated_colliding:
  "validatedMounts accept_all colliding_group isMain =
     [\<lparr>hostPath = ''/srv/shared/a'', containerPath = ''/workspace/extra/shared'', readonly = False\<rparr>,
      \<lparr>hostPath = ''/srv/shared/b'', containerPath = ''/workspace/extra/shared'', readonly = True\<rparr>]"
  by (simp add: validatedMounts_def accept_all_def colliding_group_def)

lemma example_build_succeeds:
  "\<exists>ms fs'. buildVolumeMounts cfg example_host v
      (mkdirSync example_filesystem p) grp isMain = Inr (ms, fs')"
proof -
  have home: "getHomeDir example_host = Inr ''/home/op''"
    by (simp add: getHomeDir_def example_host_def or_string_def)
  have env: "files (mkdirSync example_filesystem p) (path_join [cwd example_host, ''.env'']) \<noteq> None"
    by (simp add: files_mkdirSync example_filesystem_def example_host_def path_join_def normalize_def
          normalizeString_def normalize_step_def isAbsolute_def)
  from buildVolumeMounts_succeeds [OF home env] show ?thesis .
qed

theorem mounts_without_collision_check_witness:
  "\<exists>ms fs'. buildVolumeMounts example_config example_host accept_all
       (mkdirSync example_filesystem ''/srv/groups/family'') colliding_group False = Inr (ms, fs')
     \<and> (\<exists>builtin. ms = builtin @
             [\<lparr>hostPath = ''/srv/shared/a'', containerPath = ''/workspace/extra/shared'',
               readonly = False\<rparr>,
              \<lparr>hostPath = ''/srv/shared/b'', containerPath = ''/workspace/extra/shared'',
               readonly = True\<rparr>]
           \<and> distinct (map containerPath builtin)
           \<and> set (map containerPath builtin) \<subseteq> builtin_containerPaths)"
proof -
  from example_build_succeeds obtain ms fs' where
    b: "buildVolumeMounts example_config example_host accept_all
       (mkdirSync example_filesystem ''/srv/groups/family'') colliding_group False = Inr (ms, fs')"
    by blast
  from mounts_without_collision_check [OF b] b show ?thesis
    unfolding validated_colliding by blast
qed

lemma extract_wrapped: "extract_candidate example_wrapped_output = example_success_line"
  by (simp add: extract_candidate_def example_wrapped_output_def example_success_line_def
        OUTPUT_START_MARKER_def OUTPUT_END_MARKER_def newline_def slice_def slice_index_def
        trim_def js_whitespace_def)

lemma length_wrapped: "length example_wrapped_output = 105"
  by (simp add: example_wrapped_output_def example_success_line_def OUTPUT_START_MARKER_def
        OUTPUT_END_MARKER_def)

lemma stdout_wrapped:
  "stdout (drain example_config grp [StdoutChunk example_wrapped_output]) = example_wrapped_output"
  by (rule drain_single_stdout) (simp add: length_wrapped example_config_def)

lemma parse_success:
  "JSON_parse (example_runtime example_parse) example_success_line = Inr example_success"
  by (simp add: example_runtime_def example_parse_def)

lemma example_run_succeeds:
  "\<exists>r. runContainerAgent example_config example_host (example_runtime example_parse) v
         (example_spawn (example_execution [StdoutChunk example_wrapped_output] 0)) 1000
         example_filesystem grp input = Inr r
       \<and> returned r = example_success"
proof -
  have e: "events (example_execution [StdoutChunk example_wrapped_output] 0) = [StdoutChunk example_wrapped_output]"
    "exit_code (example_execution [StdoutChunk example_wrapped_output] 0) = 0"
    by (simp_all add: example_execution_def)
  have t: "TimerFired \<notin> set (events (example_execution [StdoutChunk example_wrapped_output] 0))"
    by (simp add: e)
  have p: "JSON_parse (example_runtime example_parse)
        (extract_candidate (stdout (drain example_config grp
           (events (example_execution [StdoutChunk example_wrapped_output] 0))))) = Inr example_success"
    by (simp add: e stdout_wrapped extract_wrapped parse_success)
  have n: "example_success \<noteq> JNull"
    by (simp add: example_success_def)
  from run_exit0 [OF example_spawned t e(2), where startTime = 1000 and v = v
      and input = input and rt = "example_runtime example_parse" and grp = grp]
  show ?thesis using p n by auto
qed

text \<open>
  C9 as stated fails: with two validated additional mounts on the same sandbox path,
  two mounts of the list share it, and the invocation goes on and returns the result
  of the container.
\<close>

theorem sandbox_path_collision_counterexample:
  "(\<exists>ms fs'. buildVolumeMounts example_config example_host accept_all
        (mkdirSync example_filesystem (path_join [GROUPS_DIR example_config, folder colliding_group]))
        colliding_group (input_isMain example_input) = Inr (ms, fs')
      \<and> \<not> distinct (map containerPath ms))
   \<and> (\<exists>r. runContainerAgent example_config example_host (example_runtime example_parse) accept_all
         (example_spawn (example_execution [StdoutChunk example_wrapped_output] 0)) 1000
         example_filesystem colliding_group example_input = Inr r
       \<and> returned r = example_success)"
proof -
  from example_build_succeeds obtain ms fs' where
    b: "buildVolumeMounts example_config example_host accept_all
        (mkdirSync example_filesystem (path_join [GROUPS_DIR example_config, folder colliding_group]))
        colliding_group (input_isMain example_input) = Inr (ms, fs')"
    by blast
  have "\<not> distinct (map containerPath ms)"
    using buildVolumeMounts_Inr [OF b] by (simp add: validated_colliding)
  with b example_run_succeeds [of accept_all colliding_group example_input]
  show ?thesis by blast
qed

section \<open>Strings: occurrences, lines, trimming\<close>

lemma occurs_at_Cons_Suc: "occurs_at (x # xs) pat (Suc i) = occurs_at xs pat i"
  by (simp add: occurs_at_def)

lemma occurs_at_0: "occurs_at s pat 0 = prefix pat s"
  by (simp add: occurs_at_def)

lemma first_occurrence_0: "prefix pat s \<Longrightarrow> first_occurrence s pat i = (i = 0)"
  by (auto simp: first_occurrence_def occurs_at_0)

lemma first_occurrence_Cons:
  "\<not> prefix pat (x # xs) \<Longrightarrow>
   first_occurrence (x # xs) pat i = (\<exists>j. i = Suc j \<and> first_occurrence xs pat j)"
proof (cases i)
  case 0
  assume "\<not> prefix pat (x # xs)"
  with 0 show ?thesis by (simp add: first_occurrence_def occurs_at_0)
next
  case (Suc j)
  assume np: "\<not> prefix pat (x # xs)"
  have "(\<forall>k<Suc j. \<not> occurs_at (x # xs) pat k) = (\<forall>k<j. \<not> occurs_at xs pat k)"
  proof
    assume a: "\<forall>k<Suc j. \<not> occurs_at (x # xs) pat k"
    show "\<forall>k<j. \<not> occurs_at xs pat k"
    proof (intro allI impI)
      fix k assume "k < j"
      then have "Suc k < Suc j" by simp
      with a have "\<not> occurs_at (x # xs) pat (Suc k)" by blast
      then show "\<not> occurs_at xs pat k" by (simp add: occurs_at_Cons_Suc)
    qed
  next
    assume a: "\<forall>k<j. \<not> occurs_at xs pat k"
    show "\<forall>k<Suc j. \<not> occurs_at (x # xs) pat k"
    proof (intro allI impI)
      fix k assume k: "k < Suc j"
      show "\<not> occurs_at (x # xs) pat k"
      proof (cases k)
        case 0
        with np show ?thesis by (simp add: occurs_at_0)
      next
        case (Suc k')
        with k a show ?thesis by (simp add: occurs_at_Cons_Suc)
      qed
    qed
  qed
  with Suc show ?thesis
    by (simp add: first_occurrence_def occurs_at_Cons_Suc)
qed

lemma first_occurrence_Nil: "first_occurrence [] pat i = (i = 0 \<and> pat = [])"
  by (auto simp: first_occurrence_def occurs_at_def)

lemma indexOf_Some_iff: "indexOf s pat = Some i \<longleftrightarrow> first_occurrence s pat i"
proof (induction s arbitrary: i)
  case Nil
  show ?case by (auto simp: first_occurrence_Nil)
next
  case (Cons x xs)
  show ?case
  proof (cases "prefix pat (x # xs)")
    case True
    then have "indexOf (x # xs) pat = Some 0" by simp
    moreover from True have "first_occurrence (x # xs) pat i = (i = 0)"
      by (rule first_occurrence_0)
    ultimately show ?thesis by auto
  next
    case False
    then have 1: "indexOf (x # xs) pat = map_option Suc (indexOf xs pat)" by simp
    from False have 2: "first_occurrence (x # xs) pat i = (\<exists>j. i = Suc j \<and> first_occurrence xs pat j)"
      by (rule first_occurrence_Cons)
    have "(map_option Suc (indexOf xs pat) = Some i) = (\<exists>j. i = Suc j \<and> indexOf xs pat = Some j)"
      by (cases "indexOf xs pat") auto
    with 1 2 Cons.IH show ?thesis by simp
  qed
qed

lemma occurs_iff_first: "(\<exists>i. occurs_at s pat i) = (\<exists>i. first_occurrence s pat i)"
  unfolding first_occurrence_def by (rule exists_least_iff)

lemma indexOf_None_iff: "indexOf s pat = None \<longleftrightarrow> (\<forall>i. \<not> occurs_at s pat i)"
proof -
  have "indexOf s pat = None \<longleftrightarrow> (\<forall>i. indexOf s pat \<noteq> Some i)"
    by (cases "indexOf s pat") simp_all
  also have "\<dots> \<longleftrightarrow> (\<forall>i. \<not> first_occurrence s pat i)"
    by (simp only: indexOf_Some_iff)
  also have "\<dots> \<longleftrightarrow> (\<forall>i. \<not> occurs_at s pat i)"
    using occurs_iff_first [of s pat] by blast
  finally show ?thesis .
qed

lemma split_on_nonempty: "split_on c xs \<noteq> []"
  by (induction xs) (auto split: list.splits)

lemma join_with_Cons: "ys \<noteq> [] \<Longrightarrow> join_with sep (y # ys) = y @ sep @ join_with sep ys"
  by (cases ys) simp_all


lemma split_on_segments: "seg \<in> set (split_on c xs) \<Longrightarrow> c \<notin> set seg"
proof (induction xs arbitrary: seg)
  case Nil
  then show ?case by simp
next
  case (Cons x xs)
  then show ?case
    by (auto split: if_splits list.splits)
qed




lemma trim_hd_not_whitespace: "trim s \<noteq> [] \<Longrightarrow> \<not> js_whitespace (hd (trim s))"
proof -
  assume a: "trim s \<noteq> []"
  let ?e = "dropWhile js_whitespace s"
  obtain b where b: "?e = trim s @ b"
  proof
    show "?e = trim s @ rev (takeWhile js_whitespace (rev ?e))"
      unfolding trim_def
      by (metis rev_append rev_rev_ident takeWhile_dropWhile_id)
  qed
  with a have "?e \<noteq> []" by auto
  then have "\<not> js_whitespace (hd ?e)" by (rule hd_dropWhile)
  with a b show ?thesis by simp
qed

lemma trim_decomposition:
  "\<exists>a b. s = a @ trim s @ b \<and> (\<forall>c \<in> set a. js_whitespace c) \<and> (\<forall>c \<in> set b. js_whitespace c)"
proof -
  let ?e = "dropWhile js_whitespace s"
  have 1: "s = takeWhile js_whitespace s @ ?e" by simp
  have 2: "?e = trim s @ rev (takeWhile js_whitespace (rev ?e))"
    unfolding trim_def by (metis rev_append rev_rev_ident takeWhile_dropWhile_id)
  have 3: "\<forall>c \<in> set (takeWhile js_whitespace s). js_whitespace c"
    by (auto dest: set_takeWhileD)
  have 4: "\<forall>c \<in> set (rev (takeWhile js_whitespace (rev ?e))). js_whitespace c"
    by (auto dest: set_takeWhileD)
  from 1 2 have "s = takeWhile js_whitespace s @ trim s @ rev (takeWhile js_whitespace (rev ?e))"
    by metis
  with 3 4 show ?thesis by blast
qed


section \<open>Extraction of the result\<close>










lemma extract_null: "extract_candidate ''null'' = ''null''"
  by (simp add: extract_candidate_def OUTPUT_START_MARKER_def OUTPUT_END_MARKER_def newline_def
        trim_def js_whitespace_def)

lemma stdout_null: "stdout (drain example_config grp [StdoutChunk ''null'']) = ''null''"
  by (rule drain_single_stdout) (simp add: example_config_def)

text \<open>
  A candidate that is the JSON text \<open>null\<close> is reported as a parse failure: reading
  \<open>output.status\<close> of the parsed \<open>null\<close> throws inside the \<open>try\<close> block.
\<close>

lemma parsed_null_is_parse_failure:
  "JSON_parse (example_runtime example_parse) (extract_candidate ''null'') = Inr JNull
   \<and> (\<exists>r. runContainerAgent example_config example_host (example_runtime example_parse) accept_all
         (example_spawn (example_execution [StdoutChunk ''null''] 0)) 1000
         example_filesystem example_group example_input = Inr r
       \<and> parse_calls r = [''null'']
       \<and> returned r = error_output ''Failed to parse container output: null is not an object'')"
proof -
  have e: "events (example_execution [StdoutChunk ''null''] 0) = [StdoutChunk ''null'']"
    "exit_code (example_execution [StdoutChunk ''null''] 0) = 0"
    by (simp_all add: example_execution_def)
  have t: "TimerFired \<notin> set (events (example_execution [StdoutChunk ''null''] 0))"
    by (simp add: e)
  have q: "JSON_parse (example_runtime example_parse) ''null'' = Inr JNull"
    by (simp add: example_runtime_def example_parse_def example_success_line_def)
  have m: "null_property_error (example_runtime example_parse) = ''null is not an object''"
    by (simp add: example_runtime_def)
  from run_exit0 [OF example_spawned t e(2), where startTime = 1000 and v = accept_all
      and input = example_input and rt = "example_runtime example_parse" and grp = example_group]
  show ?thesis
    by (auto simp: e stdout_null extract_null q m)
qed

section \<open>Paths\<close>

lemma split_on_append: "split_on c (a @ c # b) = split_on c a @ split_on c b"
proof (induction a)
  case Nil
  show ?case by simp
next
  case (Cons x a)
  obtain y ys where s: "split_on c a = y # ys"
    using split_on_nonempty [of c a] by (cases "split_on c a") auto
  with Cons show ?case by (simp split: list.splits)
qed

lemma split_on_no_sep: "c \<notin> set s \<Longrightarrow> split_on c s = [s]"
  by (induction s) auto

lemma split_join_segments:
  "xs \<noteq> [] \<Longrightarrow> \<forall>s \<in> set xs. c \<notin> set s \<Longrightarrow> split_on c (join_with [c] xs) = xs"
proof (induction xs)
  case Nil
  then show ?case by simp
next
  case (Cons x xs)
  show ?case
  proof (cases "xs = []")
    case True
    with Cons.prems show ?thesis by (simp add: split_on_no_sep)
  next
    case False
    with Cons have "split_on c (join_with [c] xs) = xs" by simp
    moreover have "join_with [c] (x # xs) = x @ c # join_with [c] xs"
      using False by (simp add: join_with_Cons)
    ultimately show ?thesis
      using Cons.prems by (simp add: split_on_append split_on_no_sep)
  qed
qed

lemma normalize_step_plain: "plain_segment s \<Longrightarrow> normalize_step al res s = res @ [s]"
  by (simp add: normalize_step_def plain_segment_def)

lemma foldl_normalize_plain:
  "\<forall>s \<in> set xs. plain_segment s \<Longrightarrow> foldl (normalize_step al) res xs = res @ xs"
  by (induction xs arbitrary: res) (simp_all add: normalize_step_plain)

lemma normalizeString_append_plain:
  "\<forall>s \<in> set xs. plain_segment s \<Longrightarrow>
   normalizeString al (ys @ xs) = normalizeString al ys @ xs"
  by (simp add: normalizeString_def foldl_normalize_plain)

lemma normalize_step_kept:
  assumes "\<forall>s \<in> set res. s \<noteq> [] \<and> s \<noteq> ''.'' \<and> s \<in> S" "seg \<in> S"
  shows "\<forall>s \<in> set (normalize_step al res seg). s \<noteq> [] \<and> s \<noteq> ''.'' \<and> s \<in> S"
  using assms by (auto simp: normalize_step_def dest: in_set_butlastD)

lemma foldl_normalize_kept:
  "\<forall>s \<in> set res. s \<noteq> [] \<and> s \<noteq> ''.'' \<and> s \<in> S \<Longrightarrow> set segs \<subseteq> S \<Longrightarrow>
   \<forall>s \<in> set (foldl (normalize_step al) res segs). s \<noteq> [] \<and> s \<noteq> ''.'' \<and> s \<in> S"
proof (induction segs arbitrary: res)
  case Nil
  then show ?case by simp
next
  case (Cons seg segs)
  from Cons.prems have "\<forall>s \<in> set (normalize_step al res seg). s \<noteq> [] \<and> s \<noteq> ''.'' \<and> s \<in> S"
    by (intro normalize_step_kept) auto
  from Cons.IH [OF this] Cons.prems(2) show ?case by simp
qed

lemma path_segments_kept:
  "s \<in> set (path_segments p) \<Longrightarrow> s \<noteq> [] \<and> s \<noteq> ''.'' \<and> CHR ''/'' \<notin> set s"
proof -
  assume a: "s \<in> set (path_segments p)"
  have "\<forall>s \<in> set (foldl (normalize_step (\<not> isAbsolute p)) [] (split_on CHR ''/'' p)).
          s \<noteq> [] \<and> s \<noteq> ''.'' \<and> s \<in> set (split_on CHR ''/'' p)"
    by (rule foldl_normalize_kept) simp_all
  with a have "s \<noteq> [] \<and> s \<noteq> ''.'' \<and> s \<in> set (split_on CHR ''/'' p)"
    by (simp add: path_segments_def normalizeString_def)
  then show ?thesis
    by (auto dest: split_on_segments)
qed

lemma path_segments_plain:
  "''..'' \<notin> set (path_segments p) \<Longrightarrow> \<forall>s \<in> set (path_segments p). plain_segment s"
  using path_segments_kept [of _ p] by (auto simp: plain_segment_def)

lemma join_with_nonempty: "ys \<noteq> [] \<Longrightarrow> hd ys \<noteq> [] \<Longrightarrow> join_with sep ys \<noteq> []"
proof (cases ys)
  case Nil
  assume "ys \<noteq> []"
  with Nil show ?thesis by simp
next
  case (Cons y ys')
  assume "hd ys \<noteq> []"
  with Cons show ?thesis by (cases ys') simp_all
qed

lemma hd_join_with: "ys \<noteq> [] \<Longrightarrow> hd ys \<noteq> [] \<Longrightarrow> hd (join_with sep ys) = hd (hd ys)"
proof (cases ys)
  case Nil
  assume "ys \<noteq> []"
  with Nil show ?thesis by simp
next
  case (Cons y ys')
  assume "hd ys \<noteq> []"
  with Cons show ?thesis by (cases ys') simp_all
qed

lemma last_join_with:
  "ys \<noteq> [] \<Longrightarrow> last ys \<noteq> [] \<Longrightarrow>
   join_with sep ys \<noteq> [] \<and> last (join_with sep ys) = last (last ys)"
proof (induction ys)
  case Nil
  then show ?case by simp
next
  case (Cons y ys)
  show ?case
  proof (cases "ys = []")
    case True
    with Cons.prems show ?thesis by simp
  next
    case False
    with Cons have "join_with sep ys \<noteq> [] \<and> last (join_with sep ys) = last (last ys)"
      by simp
    with False show ?thesis by (simp add: join_with_Cons)
  qed
qed

lemma plain_segment_props:
  assumes "plain_segment s"
  shows "s \<noteq> [] \<and> hd s \<noteq> CHR ''/'' \<and> last s \<noteq> CHR ''/'' \<and> CHR ''/'' \<notin> set s"
proof -
  from assms have ne: "s \<noteq> []" and no: "CHR ''/'' \<notin> set s"
    by (simp_all add: plain_segment_def)
  from ne have "hd s \<in> set s" "last s \<in> set s" by simp_all
  with ne no show ?thesis by metis
qed

lemma normalizeString_plain: "\<forall>s \<in> set xs. plain_segment s \<Longrightarrow> normalizeString al xs = xs"
  using normalizeString_append_plain [of xs al "[]"] by (simp add: normalizeString_def)

lemma normalizeString_empty_first:
  "normalizeString al ([] # xs) = normalizeString al xs"
  by (simp add: normalizeString_def normalize_step_def)

lemma path_join_plain:
  assumes D: "D \<noteq> []" and nd: "''..'' \<notin> set (path_segments D)"
    and xs: "xs \<noteq> []" and pl: "\<forall>s \<in> set xs. plain_segment s"
  shows "path_segments (path_join (D # xs)) = path_segments D @ xs"
    and "isAbsolute (path_join (D # xs)) = isAbsolute D"
proof -
  let ?S = "path_segments D"
  let ?J = "D @ CHR ''/'' # join_with ''/'' xs"
  let ?pfx = "if isAbsolute D then ''/'' else []"
  let ?P = "?pfx @ join_with ''/'' (?S @ xs)"
  have ne: "\<forall>s \<in> set xs. s \<noteq> []" using pl by (auto dest: plain_segment_props)
  then have f: "filter (\<lambda>a. a \<noteq> []) (D # xs) = D # xs" using D by simp
  have J: "join_with ''/'' (D # xs) = ?J" using xs by (simp add: join_with_Cons)
  have absJ: "isAbsolute ?J = isAbsolute D" using D by (simp add: isAbsolute_def)
  have nosep: "\<forall>s \<in> set xs. CHR ''/'' \<notin> set s" using pl by (auto dest: plain_segment_props)
  have splitJ: "split_on CHR ''/'' ?J = split_on CHR ''/'' D @ xs"
    using split_join_segments [OF xs nosep] by (simp add: split_on_append)
  have segs: "normalizeString (\<not> isAbsolute D) (split_on CHR ''/'' ?J) = ?S @ xs"
    unfolding splitJ using pl by (simp add: normalizeString_append_plain path_segments_def)
  have "plain_segment (last xs)" using xs pl by simp
  then have lastxs: "last xs \<noteq> []" "last (last xs) \<noteq> CHR ''/''"
    by (auto dest: plain_segment_props)
  have lastJ: "last ?J \<noteq> CHR ''/''"
    using last_join_with [OF xs lastxs(1), of "''/''"] lastxs(2) by simp
  define J where "J = ?J"
  have Jfacts: "J \<noteq> []" "last J \<noteq> CHR ''/''" "isAbsolute J = isAbsolute D"
    "normalizeString (\<not> isAbsolute D) (split_on CHR ''/'' J) = ?S @ xs"
    using lastJ absJ segs by (simp_all add: J_def)
  have "normalize J = ?P"
    using xs by (simp add: normalize_def Let_def Jfacts)
  then have P: "path_join (D # xs) = ?P"
    unfolding path_join_def f Let_def J J_def by simp
  have plS: "\<forall>s \<in> set ?S. plain_segment s" using nd by (rule path_segments_plain)
  then have plall: "\<forall>s \<in> set (?S @ xs). plain_segment s" using pl by auto
  have ne2: "?S @ xs \<noteq> []" using xs by simp
  have "hd (?S @ xs) \<in> set (?S @ xs)" using ne2 by (rule hd_in_set)
  with plall have "plain_segment (hd (?S @ xs))" by blast
  then have hdne: "hd (?S @ xs) \<noteq> []" "hd (hd (?S @ xs)) \<noteq> CHR ''/''"
    by (auto dest: plain_segment_props)
  have jne: "join_with ''/'' (?S @ xs) \<noteq> []"
    using ne2 hdne(1) by (rule join_with_nonempty)
  have hdj: "hd (join_with ''/'' (?S @ xs)) \<noteq> CHR ''/''"
    using hd_join_with [OF ne2 hdne(1)] hdne(2) by simp
  show absP: "isAbsolute (path_join (D # xs)) = isAbsolute D"
    unfolding P using jne hdj by (simp add: isAbsolute_def)
  have nosep2: "\<forall>s \<in> set (?S @ xs). CHR ''/'' \<notin> set s"
    using plall by (auto dest: plain_segment_props)
  have sj: "split_on CHR ''/'' (join_with ''/'' (?S @ xs)) = ?S @ xs"
    using split_join_segments [OF ne2 nosep2] by simp
  have fin: "normalizeString (\<not> isAbsolute D) (split_on CHR ''/'' ?P) = ?S @ xs"
  proof (cases "isAbsolute D")
    case True
    then have "split_on CHR ''/'' ?P = [] # (?S @ xs)"
      using split_on_append [of "CHR ''/''" "[]" "join_with ''/'' (?S @ xs)"] sj by simp
    then show ?thesis
      using plall by (simp only: normalizeString_empty_first normalizeString_plain)
  next
    case False
    then have "split_on CHR ''/'' ?P = ?S @ xs" using sj by simp
    then show ?thesis
      using plall by (simp only: normalizeString_plain)
  qed
  have "path_segments (path_join (D # xs))
        = normalizeString (\<not> isAbsolute (path_join (D # xs))) (split_on CHR ''/'' (path_join (D # xs)))"
    by (simp only: path_segments_def)
  also have "\<dots> = normalizeString (\<not> isAbsolute D) (split_on CHR ''/'' (path_join (D # xs)))"
    by (simp only: absP)
  also have "\<dots> = normalizeString (\<not> isAbsolute D) (split_on CHR ''/'' ?P)"
    by (simp only: P)
  also note fin
  finally show "path_segments (path_join (D # xs)) = path_segments D @ xs" .
qed

section \<open>Isolation of the tenant directories\<close>

lemma path_segments_empty: "path_segments [] = []"
  by (simp add: path_segments_def normalizeString_def normalize_step_def)

lemma join_unrelated:
  assumes "isAbsolute B = isAbsolute B'"
    and "''..'' \<notin> set (path_segments B)" "''..'' \<notin> set (path_segments B')"
    and "B \<noteq> []" "B' \<noteq> []"
    and "xs \<noteq> []" "\<forall>s \<in> set xs. plain_segment s"
    and "ys \<noteq> []" "\<forall>s \<in> set ys. plain_segment s"
    and "\<not> prefix (path_segments B @ xs) (path_segments B' @ ys)"
    and "\<not> prefix (path_segments B' @ ys) (path_segments B @ xs)"
  shows "\<not> path_related (path_join (B # xs)) (path_join (B' # ys))"
proof -
  note 1 = path_join_plain [OF assms(4) assms(2) assms(6) assms(7)]
  note 2 = path_join_plain [OF assms(5) assms(3) assms(8) assms(9)]
  have "''..'' \<notin> set xs" "''..'' \<notin> set ys"
    using assms(7,9) by (auto simp: plain_segment_def)
  then have "lexically_comparable (path_join (B # xs)) (path_join (B' # ys))"
    using assms(1,2,3) by (simp add: lexically_comparable_def 1 2)
  then show ?thesis
    using assms(10,11) by (simp add: path_related_def 1 2)
qed

lemma not_related_config:
  assumes "\<not> path_related G D"
  shows "isAbsolute G = isAbsolute D" "''..'' \<notin> set (path_segments G)"
    "''..'' \<notin> set (path_segments D)" "G \<noteq> []" "D \<noteq> []"
    "\<not> prefix (path_segments G @ xs) (path_segments D @ ys)"
    "\<not> prefix (path_segments D @ ys) (path_segments G @ xs)"
proof -
  from assms have c: "lexically_comparable G D"
    and p: "\<not> prefix (path_segments G) (path_segments D)" "\<not> prefix (path_segments D) (path_segments G)"
    by (simp_all add: path_related_def)
  from c show "isAbsolute G = isAbsolute D" "''..'' \<notin> set (path_segments G)"
    "''..'' \<notin> set (path_segments D)"
    by (simp_all add: lexically_comparable_def)
  from p show "G \<noteq> []" "D \<noteq> []"
    by (auto simp: path_segments_empty)
  from p have "parallel (path_segments G) (path_segments D)"
    by (simp add: parallel_def)
  then have "parallel (path_segments G @ xs) (path_segments D @ ys)"
    by (rule parallel_append)
  then show "\<not> prefix (path_segments G @ xs) (path_segments D @ ys)"
    "\<not> prefix (path_segments D @ ys) (path_segments G @ xs)"
    by (simp_all add: parallel_def)
qed

lemma plain_fixed:
  "plain_segment ''sessions''" "plain_segment ''.claude''" "plain_segment ''ipc''"
  "plain_segment ''env''" "plain_segment ''global''"
  by (simp_all add: plain_segment_def)

text \<open>
  Where the isolation does hold. Take two non-privileged tenants whose folder names
  are different and are plain segments, with \<open>GROUPS_DIR\<close> and \<open>DATA_DIR\<close> unrelated.
  The mounts of the first tenant are the built-in ones followed by the validated
  additional ones, and no built-in mount has a host path that equals, is above or is
  below the session directory or the IPC directory of the second tenant.
\<close>

lemma tenant_directories_isolated:
  assumes f1: "plain_segment (folder grp)" and f2: "plain_segment f2"
    and ne: "folder grp \<noteq> f2"
    and cfg: "\<not> path_related (GROUPS_DIR cfg) (DATA_DIR cfg)"
    and b: "buildVolumeMounts cfg h v fs grp False = Inr (ms, fs')"
  shows "\<exists>builtin. ms = builtin @ validatedMounts v grp False
     \<and> (\<forall>m \<in> set builtin.
            \<not> path_related (hostPath m) (groupSessionsDir cfg f2)
          \<and> \<not> path_related (hostPath m) (groupIpcDir cfg f2))"
proof -
  let ?G = "GROUPS_DIR cfg" and ?D = "DATA_DIR cfg" and ?f = "folder grp"
  note c = not_related_config [OF cfg]
  have GD: "\<not> path_related (path_join (?G # xs)) (path_join (?D # ys))"
    if "xs \<noteq> []" "\<forall>s \<in> set xs. plain_segment s" "ys \<noteq> []" "\<forall>s \<in> set ys. plain_segment s"
    for xs ys
    using join_unrelated [OF c(1) c(2) c(3) c(4) c(5) that(1) that(2) that(3) that(4) c(6) c(7)] .
  have DD: "\<not> path_related (path_join (?D # xs)) (path_join (?D # ys))"
    if "xs \<noteq> []" "\<forall>s \<in> set xs. plain_segment s" "ys \<noteq> []" "\<forall>s \<in> set ys. plain_segment s"
      "\<not> prefix xs ys" "\<not> prefix ys xs"
    for xs ys
    using join_unrelated [OF refl c(3) c(3) c(5) c(5) that(1) that(2) that(3) that(4)] that(5,6)
    by simp
  have g1: "\<not> path_related (path_join [?G, ?f]) (groupSessionsDir cfg f2)"
    "\<not> path_related (path_join [?G, ?f]) (groupIpcDir cfg f2)"
    unfolding groupSessionsDir_def groupIpcDir_def
    using GD [of "[?f]" "[''sessions'', f2, ''.claude'']"] GD [of "[?f]" "[''ipc'', f2]"] f1 f2
    by (simp_all add: plain_fixed)
  have g2: "\<not> path_related (path_join [?G, ''global'']) (groupSessionsDir cfg f2)"
    "\<not> path_related (path_join [?G, ''global'']) (groupIpcDir cfg f2)"
    unfolding groupSessionsDir_def groupIpcDir_def
    using GD [of "[''global'']" "[''sessions'', f2, ''.claude'']"] GD [of "[''global'']" "[''ipc'', f2]"] f2
    by (simp_all add: plain_fixed)
  have d1: "\<not> path_related (path_join [?D, ''sessions'', ?f, ''.claude'']) (groupSessionsDir cfg f2)"
    "\<not> path_related (path_join [?D, ''sessions'', ?f, ''.claude'']) (groupIpcDir cfg f2)"
    unfolding groupSessionsDir_def groupIpcDir_def
    using DD [of "[''sessions'', ?f, ''.claude'']" "[''sessions'', f2, ''.claude'']"]
      DD [of "[''sessions'', ?f, ''.claude'']" "[''ipc'', f2]"] f1 f2 ne
    by (simp_all add: plain_fixed)
  have d2: "\<not> path_related (path_join [?D, ''ipc'', ?f]) (groupSessionsDir cfg f2)"
    "\<not> path_related (path_join [?D, ''ipc'', ?f]) (groupIpcDir cfg f2)"
    unfolding groupSessionsDir_def groupIpcDir_def
    using DD [of "[''ipc'', ?f]" "[''sessions'', f2, ''.claude'']"]
      DD [of "[''ipc'', ?f]" "[''ipc'', f2]"] f1 f2 ne
    by (simp_all add: plain_fixed)
  have d3: "\<not> path_related (path_join [?D, ''env'']) (groupSessionsDir cfg f2)"
    "\<not> path_related (path_join [?D, ''env'']) (groupIpcDir cfg f2)"
    unfolding groupSessionsDir_def groupIpcDir_def
    using DD [of "[''env'']" "[''sessions'', f2, ''.claude'']"]
      DD [of "[''env'']" "[''ipc'', f2]"] f2
    by (simp_all add: plain_fixed)
  show ?thesis
    using buildVolumeMounts_Inr [OF b] g1 g2 d1 d2 d3
    by (intro exI [of _ "[\<lparr>hostPath = path_join [?G, ?f],
           containerPath = ''/workspace/group'', readonly = False\<rparr>]
         @ (if existsSync fs (path_join [?G, ''global''])
            then [\<lparr>hostPath = path_join [?G, ''global''],
                   containerPath = ''/workspace/global'', readonly = True\<rparr>]
            else [])
         @ [\<lparr>hostPath = path_join [?D, ''sessions'', ?f, ''.claude''],
          containerPath = ''/home/node/.claude'', readonly = False\<rparr>,
         \<lparr>hostPath = path_join [?D, ''ipc'', ?f],
          containerPath = ''/workspace/ipc'', readonly = False\<rparr>,
         \<lparr>hostPath = path_join [?D, ''env''],
          containerPath = ''/workspace/env-dir'', readonly = True\<rparr>]"]) auto
qed

lemma path_related_refl: "path_related p p"
  by (simp add: path_related_def)

lemmas path_eval = path_join_def normalize_def normalizeString_def normalize_step_def isAbsolute_def

lemma example_dirs_unrelated:
  "\<not> path_related (GROUPS_DIR example_config) (DATA_DIR example_config)"
  by (simp add: example_config_def path_related_def lexically_comparable_def path_segments_def
        normalizeString_def normalize_step_def isAbsolute_def)

lemma tenant_directories_isolated_example:
  "plain_segment (folder example_group) \<and> plain_segment ''work''
   \<and> folder example_group \<noteq> ''work''
   \<and> \<not> path_related (GROUPS_DIR example_config) (DATA_DIR example_config)
   \<and> (\<exists>ms fs'. buildVolumeMounts example_config example_host accept_all
           (mkdirSync example_filesystem ''/srv/groups/family'') example_group False = Inr (ms, fs')
         \<and> (\<forall>m \<in> set ms.
                \<not> path_related (hostPath m) (groupSessionsDir example_config ''work'')
              \<and> \<not> path_related (hostPath m) (groupIpcDir example_config ''work'')))"
proof -
  have f1: "plain_segment (folder example_group)"
    by (simp add: example_group_def plain_segment_def)
  have f2: "plain_segment ''work''"
    by (simp add: plain_segment_def)
  have ne: "folder example_group \<noteq> ''work''"
    by (simp add: example_group_def)
  have v: "validatedMounts accept_all example_group False = []"
    by (simp add: validatedMounts_def example_group_def)
  from example_build_succeeds obtain ms fs' where
    b: "buildVolumeMounts example_config example_host accept_all
           (mkdirSync example_filesystem ''/srv/groups/family'') example_group False = Inr (ms, fs')"
    by blast
  from tenant_directories_isolated [OF f1 f2 ne example_dirs_unrelated b]
  have "\<forall>m \<in> set ms.
                \<not> path_related (hostPath m) (groupSessionsDir example_config ''work'')
              \<and> \<not> path_related (hostPath m) (groupIpcDir example_config ''work'')"
    by (auto simp: v)
  with f1 f2 ne example_dirs_unrelated b show ?thesis by blast
qed

text \<open>
  C1 fails on the code for folder names that are not plain segments. The folder is
  handed to \<open>path.join\<close> as it is, and \<open>path.join\<close> normalises it: the folders \<open>a\<close>
  and \<open>./a\<close> are different names, and the session directory and the IPC directory of
  \<open>./a\<close> are the ones that the tenant of folder \<open>a\<close> gets mounted, both writable.
\<close>

theorem folder_alias_shares_directories:
  "''a'' \<noteq> ''./a''
   \<and> groupSessionsDir example_config ''./a'' = ''/srv/data/sessions/a/.claude''
   \<and> groupIpcDir example_config ''./a'' = ''/srv/data/ipc/a''
   \<and> (\<exists>ms fs'. buildVolumeMounts example_config example_host accept_all
           (mkdirSync example_filesystem ''/srv/groups/a'') (group_in_folder ''a'') False = Inr (ms, fs')
         \<and> \<lparr>hostPath = ''/srv/data/sessions/a/.claude'', containerPath = ''/home/node/.claude'',
             readonly = False\<rparr> \<in> set ms
         \<and> \<lparr>hostPath = ''/srv/data/ipc/a'', containerPath = ''/workspace/ipc'',
             readonly = False\<rparr> \<in> set ms)"
proof -
  from example_build_succeeds obtain ms fs' where
    b: "buildVolumeMounts example_config example_host accept_all
           (mkdirSync example_filesystem ''/srv/groups/a'') (group_in_folder ''a'') False = Inr (ms, fs')"
    by blast
  have s: "groupSessionsDir example_config ''./a'' = ''/srv/data/sessions/a/.claude''"
    "path_join [DATA_DIR example_config, ''sessions'', folder (group_in_folder ''a''), ''.claude'']
       = ''/srv/data/sessions/a/.claude''"
    by (simp_all add: groupSessionsDir_def example_config_def group_in_folder_def path_eval)
  have i: "groupIpcDir example_config ''./a'' = ''/srv/data/ipc/a''"
    "path_join [DATA_DIR example_config, ''ipc'', folder (group_in_folder ''a'')] = ''/srv/data/ipc/a''"
    by (simp_all add: groupIpcDir_def example_config_def group_in_folder_def path_eval)
  have "\<lparr>hostPath = ''/srv/data/sessions/a/.claude'', containerPath = ''/home/node/.claude'',
          readonly = False\<rparr> \<in> set ms"
    "\<lparr>hostPath = ''/srv/data/ipc/a'', containerPath = ''/workspace/ipc'',
          readonly = False\<rparr> \<in> set ms"
    using buildVolumeMounts_Inr [OF b] by (simp_all add: s i)
  with b s(1) i(1) show ?thesis by auto
qed

end
